theory Spec2Isabelle
  imports Complex_Main "HOL-Library.Word"
begin

unbundle bit_operations_syntax

section \<open>The AD9361 driver core (ad9361\_device.cpp) as HOL functions\<close>

text \<open>
  The driver is a C++ class whose member functions mutate the object's fields and talk
  to the chip through an 8-bit register interface (\<^verbatim>\<open>_io_iface->peek8\<close>,
  \<^verbatim>\<open>_io_iface->poke8\<close>). Here every member function takes the device and returns
  the device it leaves behind. A leading underscore of a source name is dropped
  (\<^verbatim>\<open>_tune_bbvco\<close> is \<open>tune_bbvco\<close>, the field \<^verbatim>\<open>_rx_freq\<close> is \<open>rx_freq\<close>).

  Conventions of the model:
  \<^item> \<^verbatim>\<open>double\<close> is \<open>real\<close>. Comparisons of finite doubles are exact, so every
    branch on a requested rate, frequency or gain is the source's branch; products,
    quotients and sums are the exact ones, without the rounding of the 53-bit format,
    and NaN and the infinities are not inputs.
  \<^item> C++ \<^verbatim>\<open>int\<close> and \<^verbatim>\<open>size_t\<close> are \<open>int\<close> and \<open>nat\<close> (no value of the driver
    comes near their limits); a conversion of a double to an integer type truncates
    towards zero (\<open>c_trunc\<close>), and a conversion to an 8-bit or 16-bit unsigned type keeps
    the low bits of the truncated value.
  \<^item> A \<^verbatim>\<open>throw uhd::runtime_error\<close> is the result \<open>Err e s\<close>, with one \<open>error\<close>
    constructor per message of the source and the device \<open>s\<close> as it is when the
    exception leaves.
  \<^item> Sleeps, the log stream and the recursive mutex have no counterpart: the model is a
    single thread of control.
\<close>

type_synonym double = real
type_synonym u8 = "8 word"
type_synonym u16 = "16 word"

datatype direction_t = RX | TX

datatype chain_t = CHAIN_1 | CHAIN_2

definition c_trunc :: "real \<Rightarrow> int" where
  "c_trunc x = (if 0 \<le> x then \<lfloor>x\<rfloor> else \<lceil>x\<rceil>)"

definition lround :: "real \<Rightarrow> int" where
  "lround x = (if 0 \<le> x then \<lfloor>x + 1 / 2\<rfloor> else \<lceil>x - 1 / 2\<rceil>)"

definition to_u8 :: "real \<Rightarrow> u8" where
  "to_u8 x = word_of_int (c_trunc x)"

definition to_u16 :: "real \<Rightarrow> u16" where
  "to_u16 x = word_of_int (c_trunc x)"

definition of_u8 :: "u8 \<Rightarrow> real" where
  "of_u8 w = real (unat w)"

subsection \<open>Helpers at the top of the file\<close>

text \<open>
  The macro \<^verbatim>\<open>B8(d)\<close> reads the decimal-looking literal \<open>d\<close> as the hex constant
  \<^verbatim>\<open>0x d\<close> and turns every non-zero nibble into one bit.
\<close>

definition B8 :: "32 word \<Rightarrow> u8" where
  "B8 x = (if x AND 0x0000000F \<noteq> 0 then 1 else 0)
        + (if x AND 0x000000F0 \<noteq> 0 then 2 else 0)
        + (if x AND 0x00000F00 \<noteq> 0 then 4 else 0)
        + (if x AND 0x0000F000 \<noteq> 0 then 8 else 0)
        + (if x AND 0x000F0000 \<noteq> 0 then 16 else 0)
        + (if x AND 0x00F00000 \<noteq> 0 then 32 else 0)
        + (if x AND 0x0F000000 \<noteq> 0 then 64 else 0)
        + (if x AND 0xF0000000 \<noteq> 0 then 128 else 0)"

definition freq_is_nearly_equal :: "double \<Rightarrow> double \<Rightarrow> bool" where
  "freq_is_nearly_equal a b \<longleftrightarrow> max a b - min a b < 1"

definition num_taps_list :: "int list" where
  "num_taps_list = [16, 32, 48, 64, 80, 96, 112, 128]"

text \<open>
  The \<^verbatim>\<open>for\<close> loop of \<^verbatim>\<open>get_num_taps\<close>, from index \<open>i\<close> on: it returns the value
  \<^verbatim>\<open>num_taps\<close> has when the loop is left (0 when no \<^verbatim>\<open>break\<close> was taken).
\<close>

function get_num_taps_loop :: "int \<Rightarrow> nat \<Rightarrow> int" where
  "get_num_taps_loop max_num_taps i =
     (if i < 8 then
        (if max_num_taps \<ge> num_taps_list ! i then get_num_taps_loop max_num_taps (i + 1)
         else num_taps_list ! (i - 1))
      else 0)"
  by pat_completeness auto
termination
  by (relation "measure (\<lambda>(m, i). 8 - i)") auto

declare get_num_taps_loop.simps [simp del]

definition get_num_taps :: "int \<Rightarrow> int" where
  "get_num_taps max_num_taps =
     (let num_taps = get_num_taps_loop max_num_taps 1
      in if num_taps = 0 then 128 else num_taps)"

subsection \<open>The device state and the register interface\<close>

text \<open>
  The class declaration (ad9361\_device.h), the client parameters (ad9361\_client.h) and
  the static tables (ad9361\_filter\_taps.h, ad9361\_gain\_tables.h, ad9361\_synth\_lut.h)
  are not among the sources. The records below hold the members and tables that the
  member functions of ad9361\_device.cpp use, with the types their use shows; the
  tables are a parameter \<open>tb\<close> of every function that reads one, so that every theorem
  holds for any table contents. An enumeration the source switches over with a
  \<^verbatim>\<open>default:\<close> branch has one more constructor for the values that branch takes.
\<close>

datatype clocking_mode_t =
  AD9361_XTAL_P_CLK_PATH | AD9361_XTAL_N_CLK_PATH | CLOCKING_MODE_OTHER

datatype digital_interface_mode_t =
  AD9361_DDR_FDD_LVCMOS | AD9361_DDR_FDD_LVDS | DIGITAL_INTERFACE_MODE_OTHER

datatype frequency_band_t = AD9361_RX_BAND0 | AD9361_RX_BAND1 | AD9361_TX_BAND0

record digital_interface_delays_t =
  rx_clk_delay :: u8
  rx_data_delay :: u8
  tx_clk_delay :: u8
  tx_data_delay :: u8

record ad9361_params =
  get_clocking_mode :: clocking_mode_t
  get_digital_interface_mode :: digital_interface_mode_t
  get_digital_interface_timing :: digital_interface_delays_t
  get_band_edge :: "frequency_band_t \<Rightarrow> double"

record ad9361_tables =
  hb127_coeffs :: "nat \<Rightarrow> int"
  hb95_coeffs :: "nat \<Rightarrow> int"
  hb63_coeffs :: "nat \<Rightarrow> int"
  hb47_coeffs :: "nat \<Rightarrow> int"
  gain_table_sub_1300mhz :: "nat \<Rightarrow> nat \<Rightarrow> u8"
  gain_table_1300mhz_to_4000mhz :: "nat \<Rightarrow> nat \<Rightarrow> u8"
  gain_table_4000mhz_to_6000mhz :: "nat \<Rightarrow> nat \<Rightarrow> u8"
  vco_index :: "nat \<Rightarrow> double"
  synth_cal_lut :: "nat \<Rightarrow> nat \<Rightarrow> u8"

text \<open>
  Modelled from the spec: the macro \<^verbatim>\<open>AD9361_MAX_GAIN\<close> is defined in ad9361\_device.h,
  which is not among the sources. Its value is the one the comment in \<^verbatim>\<open>set_gain\<close>
  gives: ``Max gain (so zero attenuation) is 89.75''.
\<close>

definition AD9361_MAX_GAIN :: double where
  "AD9361_MAX_GAIN = 89.75"

record chip_regs_t =
  vcodivs :: u8
  inputsel :: u8
  rxfilt :: u8
  txfilt :: u8
  bbpll :: u8
  bbftune_config :: u8
  bbftune_mode :: u8

text \<open>
  The register interface is the last three fields. \<open>io_pokes\<close> is the log of every
  \<^verbatim>\<open>poke8\<close> (address, value), the newest first. The chip's answers are not
  under the driver's control: \<open>io_answers s k a\<close> is what the chip answers when the
  \<open>k\<close>-th \<^verbatim>\<open>peek8\<close> of the run reads address \<open>a\<close>, and \<open>io_peeks\<close> counts the
  reads made so far. Any behaviour of the chip over time, also one that depends on what
  was written, is one such function; the theorems quantify over all of them.
\<close>

record ad9361_device_t =
  regs :: chip_regs_t
  rx_freq :: double
  tx_freq :: double
  req_rx_freq :: double
  req_tx_freq :: double
  baseband_bw :: double
  bbpll_freq :: double
  adcclock_freq :: double
  req_clock_rate :: double
  req_coreclk :: double
  rx_bbf_tunediv :: u16
  curr_gain_table :: u8
  rx1_gain :: double
  rx2_gain :: double
  tx1_gain :: double
  tx2_gain :: double
  tfir_factor :: int
  client_params :: ad9361_params
  io_answers :: "nat \<Rightarrow> nat \<Rightarrow> u8"
  io_peeks :: nat
  io_pokes :: "(nat \<times> u8) list"

datatype error =
    Unsupported_Rx_FIR_taps
  | Unsupported_Tx_FIR_taps
  | BBPLL_not_locked
  | Not_in_ALERT_during_cal
  | RX_charge_pump_cal_failure
  | TX_charge_pump_cal_failure
  | RX_baseband_filter_cal_FAILURE
  | TX_baseband_filter_cal_FAILURE
  | Cal2ndTxFil_INVALID_CODE_PATH
  | CalRxTias_INVALID_CODE_PATH
  | Baseband_DC_Offset_Calibration_Failure
  | RF_DC_Offset_Calibration_Failure
  | Max_cal_freq_gt_bbbw
  | TX_Quadrature_Calibration_Failure
  | TX_Quad_Cal_not_in_ALERT
  | Wrong_rx_freq_value
  | Vcoindex_gt_53
  | Tune_bbvco_wrong_vcorate
  | RFVCO_no_valid_VCO_rate
  | Tune_helper_INVALID_CODE_PATH
  | RX_PLL_NOT_LOCKED
  | TX_PLL_NOT_LOCKED
  | Setup_rates_INVALID_CODE_PATH
  | NOT_IMPLEMENTED
  | Clock_rate_outside_range
  | Set_clock_rate_1_unknown_state
  | Set_clock_rate_2_unknown_state

datatype 'a result = Ok 'a ad9361_device_t | Err error ad9361_device_t

text \<open>Sequencing: what follows a call runs only when the call did not throw.\<close>

definition and_then :: "'a result \<Rightarrow> ('a \<Rightarrow> ad9361_device_t \<Rightarrow> 'b result) \<Rightarrow> 'b result" where
  "and_then r f = (case r of Ok x s \<Rightarrow> f x s | Err e s \<Rightarrow> Err e s)"

definition poke8 :: "nat \<Rightarrow> u8 \<Rightarrow> ad9361_device_t \<Rightarrow> ad9361_device_t" where
  "poke8 a v s = s\<lparr>io_pokes := (a, v) # io_pokes s\<rparr>"

definition peek8 :: "nat \<Rightarrow> ad9361_device_t \<Rightarrow> u8 \<times> ad9361_device_t" where
  "peek8 a s = (io_answers s (io_peeks s) a, s\<lparr>io_peeks := Suc (io_peeks s)\<rparr>)"

text \<open>A run of consecutive \<^verbatim>\<open>poke8\<close> calls, in the order of the source.\<close>

fun pokes :: "(nat \<times> u8) list \<Rightarrow> ad9361_device_t \<Rightarrow> ad9361_device_t" where
  "pokes [] s = s"
| "pokes ((a, v) # l) s = pokes l (poke8 a v s)"

text \<open>
  The polling idiom of the calibrations,
  \<^verbatim>\<open>while (<peek8(a) & msk, or its negation>) { if (count > limit) throw e; count++; sleep; }\<close>.
  \<open>until_set\<close> says whether the loop is left when the masked bits are set (the source
  negates the test) or when they are clear. The recursion is on \<open>count\<close>, which the
  source starts at 0.
\<close>

function poll_wait ::
  "nat \<Rightarrow> u8 \<Rightarrow> bool \<Rightarrow> nat \<Rightarrow> error \<Rightarrow> nat \<Rightarrow> ad9361_device_t \<Rightarrow> unit result" where
  "poll_wait a msk until_set limit e count s =
     (if (fst (peek8 a s) AND msk \<noteq> 0) = until_set then Ok () (snd (peek8 a s))
      else if count > limit then Err e (snd (peek8 a s))
      else poll_wait a msk until_set limit e (count + 1) (snd (peek8 a s)))"
  by pat_completeness auto
termination
  by (relation "measure (\<lambda>(a, msk, until_set, limit, e, count, s). Suc limit - count)") auto

declare poll_wait.simps [simp del]

subsection \<open>Filter functions\<close>

definition program_fir_filter ::
  "direction_t \<Rightarrow> nat \<Rightarrow> (nat \<Rightarrow> u16) \<Rightarrow> ad9361_device_t \<Rightarrow> ad9361_device_t" where
  "program_fir_filter direction num_taps coeffs s =
     (let base = (if direction = RX then 0x0f0 else 0x060);
          reg_numtaps = (word_of_int (push_bit 5 ((int (num_taps div 16) - 1) AND 0x07)) :: u8);
          s = poke8 (base + 5) (reg_numtaps OR 0x1a) s;
          s = fold (\<lambda>addr. pokes
                [(base + 0, of_nat addr), (base + 1, 0x0), (base + 2, 0x0),
                 (base + 5, reg_numtaps OR 0x1e), (base + 4, 0x00), (base + 4, 0x00)])
                [num_taps..<128] s;
          s = fold (\<lambda>addr. pokes
                [(base + 0, of_nat addr),
                 (base + 1, ucast (coeffs addr AND 0xff)),
                 (base + 2, ucast (drop_bit 8 (coeffs addr) AND 0xff)),
                 (base + 5, reg_numtaps OR 0x1e), (base + 4, 0x00), (base + 4, 0x00)])
                [0..<num_taps] s;
          s = poke8 (base + 5) (reg_numtaps OR 0x1A) s
      in if direction = RX
         then pokes [(base + 5, reg_numtaps OR 0x18), (base + 6, 0x02)] s
         else poke8 (base + 5) (reg_numtaps OR 0x19) s)"

text \<open>
  \<^verbatim>\<open>_setup_rx_fir\<close> fills the coefficient array inside a loop over its \<open>num_taps\<close>
  entries, and the \<^verbatim>\<open>switch\<close> that throws on an unsupported count sits inside that
  loop: with \<open>num_taps = 0\<close> the loop body never runs and nothing is thrown.
\<close>

definition setup_rx_fir :: "ad9361_tables \<Rightarrow> nat \<Rightarrow> ad9361_device_t \<Rightarrow> unit result" where
  "setup_rx_fir tb num_taps s =
     (if num_taps = 0 then Ok () (program_fir_filter RX num_taps (\<lambda>i. 0) s)
      else if num_taps = 128
        then Ok () (program_fir_filter RX num_taps (\<lambda>i. word_of_int (hb127_coeffs tb i)) s)
      else if num_taps = 96
        then Ok () (program_fir_filter RX num_taps (\<lambda>i. word_of_int (hb95_coeffs tb i)) s)
      else if num_taps = 64
        then Ok () (program_fir_filter RX num_taps (\<lambda>i. word_of_int (hb63_coeffs tb i)) s)
      else if num_taps = 48
        then Ok () (program_fir_filter RX num_taps (\<lambda>i. word_of_int (hb47_coeffs tb i)) s)
      else Err Unsupported_Rx_FIR_taps s)"

definition setup_tx_fir :: "ad9361_tables \<Rightarrow> nat \<Rightarrow> ad9361_device_t \<Rightarrow> unit result" where
  "setup_tx_fir tb num_taps s =
     (if num_taps = 0 then Ok () (program_fir_filter TX num_taps (\<lambda>i. 0) s)
      else if num_taps = 128
        then Ok () (program_fir_filter TX num_taps (\<lambda>i. word_of_int (hb127_coeffs tb i)) s)
      else if num_taps = 96
        then Ok () (program_fir_filter TX num_taps (\<lambda>i. word_of_int (hb95_coeffs tb i)) s)
      else if num_taps = 64
        then Ok () (program_fir_filter TX num_taps (\<lambda>i. word_of_int (hb63_coeffs tb i)) s)
      else if num_taps = 48
        then Ok () (program_fir_filter TX num_taps (\<lambda>i. word_of_int (hb47_coeffs tb i)) s)
      else Err Unsupported_Tx_FIR_taps s)"

subsection \<open>Calibration functions\<close>

definition calibrate_lock_bbpll :: "ad9361_device_t \<Rightarrow> unit result" where
  "calibrate_lock_bbpll s =
     poll_wait 0x05e 0x80 True 1000 BBPLL_not_locked 0
       (pokes [(0x03F, 0x05), (0x03F, 0x01), (0x04c, 0x86), (0x04d, 0x01), (0x04d, 0x05)] s)"

definition calibrate_synth_charge_pumps :: "ad9361_device_t \<Rightarrow> unit result" where
  "calibrate_synth_charge_pumps s =
     (if fst (peek8 0x017 s) AND 0x0F \<noteq> 5 then Err Not_in_ALERT_during_cal (snd (peek8 0x017 s))
      else
        and_then
          (poll_wait 0x244 0x80 True 5 RX_charge_pump_cal_failure 0
             (poke8 0x23d 0x04 (snd (peek8 0x017 s))))
          (\<lambda>u s. and_then
             (poll_wait 0x284 0x80 True 5 TX_charge_pump_cal_failure 0
               (poke8 0x27d 0x04 (poke8 0x23d 0x00 s)))
             (\<lambda>u s. Ok () (poke8 0x27d 0x00 s))))"

definition calibrate_baseband_rx_analog_filter :: "ad9361_device_t \<Rightarrow> double result" where
  "calibrate_baseband_rx_analog_filter s =
     (let bbbw = baseband_bw s / 2;
          bbbw = (if bbbw > 28000000 then 28000000 else if bbbw < 200000 then 200000 else bbbw);
          rxtune_clk = (1.4 * bbbw * 2 * pi) / ln 2;
          tunediv = min 511 (to_u16 (bbpll_freq s / rxtune_clk));
          s = s\<lparr>rx_bbf_tunediv := tunediv\<rparr>;
          s = s\<lparr>regs := (regs s)\<lparr>bbftune_config :=
                (bbftune_config (regs s) AND 0xFE) OR ucast (drop_bit 8 tunediv AND 0x0001)\<rparr>\<rparr>;
          bbbw_mhz = bbbw / 1000000;
          temp = ((bbbw_mhz - of_int \<lfloor>bbbw_mhz\<rfloor>) * 1000) / 7.8125;
          bbbw_khz = min 127 (to_u8 (temp + 0.5));
          s = pokes [(0x1fb, to_u8 bbbw_mhz), (0x1fc, bbbw_khz),
                     (0x1f8, ucast (rx_bbf_tunediv s AND 0x00FF)),
                     (0x1f9, bbftune_config (regs s)),
                     (0x1d5, 0x3f), (0x1c0, 0x03), (0x1e2, 0x02), (0x1e3, 0x02),
                     (0x016, 0x80)] s
      in and_then (poll_wait 0x016 0x80 False 100 RX_baseband_filter_cal_FAILURE 0 s)
           (\<lambda>u s. Ok bbbw (pokes [(0x1e2, 0x03), (0x1e3, 0x03)] s)))"

definition calibrate_baseband_tx_analog_filter :: "ad9361_device_t \<Rightarrow> double result" where
  "calibrate_baseband_tx_analog_filter s =
     (let bbbw = baseband_bw s / 2;
          bbbw = (if bbbw > 20000000 then 20000000 else if bbbw < 625000 then 625000 else bbbw);
          txtune_clk = (1.6 * bbbw * 2 * pi) / ln 2;
          txbbfdiv = min 511 (to_u16 (bbpll_freq s / txtune_clk));
          s = s\<lparr>regs := (regs s)\<lparr>bbftune_mode :=
                (bbftune_mode (regs s) AND 0xFE) OR ucast (drop_bit 8 txbbfdiv AND 0x0001)\<rparr>\<rparr>;
          s = pokes [(0x0d6, ucast (txbbfdiv AND 0x00FF)), (0x0d7, bbftune_mode (regs s)),
                     (0x0ca, 0x22), (0x016, 0x40)] s
      in and_then (poll_wait 0x016 0x40 False 100 TX_baseband_filter_cal_FAILURE 0 s)
           (\<lambda>u s. Ok bbbw (poke8 0x0ca 0x26 s)))"

text \<open>
  The resistor and capacitor search of \<^verbatim>\<open>_calibrate_secondary_tx_filter\<close>: the
  \<^verbatim>\<open>for (i = 0; i <= 3; i++)\<close> loop from \<open>i\<close> on, returning \<open>(res, cap)\<close> as they are
  when the loop is left.
\<close>

function secondary_tx_rc :: "nat \<Rightarrow> int \<Rightarrow> int \<Rightarrow> double \<Rightarrow> int \<times> int" where
  "secondary_tx_rc i res cap corner_freq =
     (if i \<le> 3 then
        (let cap = c_trunc (0.5 + (1 / ((corner_freq * of_int res) * 1000000)) * 1000000000000) - 12
         in if cap \<le> 63 then (res, cap)
            else secondary_tx_rc (i + 1) (res * 2) cap corner_freq)
      else (res, cap))"
  by pat_completeness auto
termination
  by (relation "measure (\<lambda>(i, res, cap, corner_freq). 4 - i)") auto

declare secondary_tx_rc.simps [simp del]

definition calibrate_secondary_tx_filter :: "ad9361_device_t \<Rightarrow> unit result" where
  "calibrate_secondary_tx_filter s =
     (let bbbw = baseband_bw s / 2;
          bbbw = (if bbbw > 20000000 then 20000000 else if bbbw < 530000 then 530000 else bbbw);
          bbbw_mhz = bbbw / 1000000;
          corner_freq = 5 * bbbw_mhz * 2 * pi;
          (res, cap) = secondary_tx_rc 0 100 0 corner_freq;
          cap = (if cap > 63 then 63 else cap)
      in if \<not> ((bbbw_mhz * 2) \<le> 9) \<and> \<not> (((bbbw_mhz * 2) > 9) \<and> ((bbbw_mhz * 2) \<le> 24))
            \<and> \<not> ((bbbw_mhz * 2) > 24)
         then Err Cal2ndTxFil_INVALID_CODE_PATH s
         else
           (let reg0d0 = (if (bbbw_mhz * 2) \<le> 9 then 0x59
                          else if ((bbbw_mhz * 2) > 9) \<and> ((bbbw_mhz * 2) \<le> 24) then 0x56
                          else 0x57);
                reg0d1 = (if res = 100 then 0x0c else if res = 200 then 0x04
                          else if res = 400 then 0x03 else if res = 800 then 0x01 else 0x0c);
                reg0d2 = word_of_int cap
            in Ok () (pokes [(0x0d2, reg0d2), (0x0d1, reg0d1), (0x0d0, reg0d0)] s)))"

definition calibrate_rx_TIAs :: "ad9361_device_t \<Rightarrow> unit result" where
  "calibrate_rx_TIAs s =
     (let (r, s) = peek8 0x1eb s; reg1eb = r AND 0x3F;
          (r, s) = peek8 0x1ec s; reg1ec = r AND 0x7F;
          (r, s) = peek8 0x1e6 s; reg1e6 = r AND 0x07;
          bbbw = baseband_bw s / 2;
          bbbw = (if bbbw > 20000000 then 20000000 else if bbbw < 200000 then 200000 else bbbw);
          ceil_bbbw_mhz = (of_int \<lceil>bbbw / 1000000\<rceil> :: double);
          Cbbf = (uint reg1eb * 160) + (uint reg1ec * 10) + 140;
          R2346 = 18300 * uint (reg1e6 AND 0x07);
          CTIA_fF = (of_int (Cbbf * R2346) * 0.56) / 3500
      in if \<not> (ceil_bbbw_mhz \<le> 3) \<and> \<not> ((ceil_bbbw_mhz > 3) \<and> (ceil_bbbw_mhz \<le> 10))
            \<and> \<not> (ceil_bbbw_mhz > 10)
         then Err CalRxTias_INVALID_CODE_PATH s
         else
           (let reg1db = (if ceil_bbbw_mhz \<le> 3 then 0xe0
                          else if (ceil_bbbw_mhz > 3) \<and> (ceil_bbbw_mhz \<le> 10) then 0x60
                          else 0x20);
                temp_hi = min 127 (to_u8 (0.5 + ((CTIA_fF - 400.0) / 320.0)));
                temp_lo = to_u8 (of_u8 (to_u8 (0.5 + ((CTIA_fF - 400.0) / 40.0))) + 0x40);
                reg1dc = (if CTIA_fF > 2920 then 0x40 else temp_lo);
                reg1de = (if CTIA_fF > 2920 then 0x40 else temp_lo);
                reg1dd = (if CTIA_fF > 2920 then temp_hi else 0);
                reg1df = (if CTIA_fF > 2920 then temp_hi else 0)
            in Ok () (pokes [(0x1db, reg1db), (0x1dd, reg1dd), (0x1df, reg1df),
                             (0x1dc, reg1dc), (0x1de, reg1de)] s)))"

text \<open>
  The 40 ADC settings of \<^verbatim>\<open>_setup_adc\<close>, in the order of the array. The arguments
  are the clamped bandwidth in MHz, the three codes read back from the chip and the ADC
  clock \<^verbatim>\<open>_adcclock_freq\<close>. (\<^verbatim>\<open>std::floor<boost::uint8_t>(x)\<close> converts \<open>x\<close> to
  the 8-bit type before it takes the floor, so it is the conversion \<open>to_u8\<close>.)
\<close>

definition setup_adc_data :: "double \<Rightarrow> u8 \<Rightarrow> u8 \<Rightarrow> u8 \<Rightarrow> double \<Rightarrow> u8 list" where
  "setup_adc_data bbbw_mhz rxbbf_c3_msb rxbbf_c3_lsb rxbbf_r2346 adcclock =
     (let fsadc = adcclock / 1000000;
          rc_timeconst =
            (if bbbw_mhz < 18 then
               (1 / ((1.4 * 2 * pi) * (18300 * of_u8 rxbbf_r2346)
                     * ((160 / 10 ^ 15 * of_u8 rxbbf_c3_msb)
                         + (10 / 10 ^ 15 * of_u8 rxbbf_c3_lsb) + 140 / 10 ^ 15)
                     * (bbbw_mhz * 1000000)))
             else
               (1 / ((1.4 * 2 * pi) * (18300 * of_u8 rxbbf_r2346)
                     * ((160 / 10 ^ 15 * of_u8 rxbbf_c3_msb)
                         + (10 / 10 ^ 15 * of_u8 rxbbf_c3_lsb) + 140 / 10 ^ 15)
                     * (bbbw_mhz * 1000000) * (1 + (0.01 * (bbbw_mhz - 18))))));
          scale_res = sqrt (1 / rc_timeconst);
          scale_cap = sqrt (1 / rc_timeconst);
          scale_snr = (if adcclock < 80000000 then 1.0 else 1.584893192);
          maxsnr = (4 :: double);
          data7 = min 124 (to_u8 (- 0.5
                    + (80.0 * scale_snr * scale_res * min 1.0 (sqrt (maxsnr * fsadc / 640.0)))));
          data007 = of_u8 data7;
          data8 = min 255 (to_u8 (0.5
                    + ((20.0 * (640.0 / fsadc) * ((data007 / 80.0)) / (scale_res * scale_cap)))));
          data10 = min 127 (to_u8 (- 0.5
                    + (77.0 * scale_res * min 1.0 (sqrt (maxsnr * fsadc / 640.0)))));
          data010 = of_u8 data10;
          data9 = min 127 (to_u8 (0.8 * data010));
          data11 = min 255 (to_u8 (0.5
                    + (20.0 * (640.0 / fsadc) * ((data010 / 77.0) / (scale_res * scale_cap)))));
          data12 = min 127 (to_u8 (- 0.5
                    + (80.0 * scale_res * min 1.0 (sqrt (maxsnr * fsadc / 640.0)))));
          data012 = of_u8 data12;
          data13 = min 255 (to_u8 (- 1.5
                    + (20.0 * (640.0 / fsadc) * ((data012 / 80.0) / (scale_res * scale_cap)))));
          data14 = to_u8 (21 * of_u8 (to_u8 (0.1 * 640.0 / fsadc)));
          data15 = min 127 (to_u8 (1.025 * data007));
          data015 = of_u8 data15;
          data16 = min 127 (to_u8 (data015
                    * (0.98 + (0.02 * max 1.0 ((640.0 / fsadc) / maxsnr)))));
          data18 = min 127 (to_u8 (0.975 * data010));
          data018 = of_u8 data18;
          data19 = min 127 (to_u8 (data018
                    * (0.98 + (0.02 * max 1.0 ((640.0 / fsadc) / maxsnr)))));
          data21 = min 127 (to_u8 (0.975 * data012));
          data021 = of_u8 data21;
          data22 = min 127 (to_u8 (data021
                    * (0.98 + (0.02 * max 1.0 ((640.0 / fsadc) / maxsnr)))));
          data25 = to_u8 (128.0 + min 63.0 (63.0 * (fsadc / 640.0)));
          data26 = to_u8 (min 63.0 (63.0 * (fsadc / 640.0) * (0.92 + (0.08 * (640.0 / fsadc)))));
          data27 = to_u8 (min 63.0 (32.0 * sqrt (fsadc / 640.0)));
          data33 = to_u8 (min 63.0 (63.0 * sqrt (fsadc / 640.0)));
          data34 = min 127 (to_u8 (64.0 * sqrt (fsadc / 640.0)))
      in [0, 0, 0, 0x24, 0x24, 0, 0, data7, data8, data9,
          data10, data11, data12, data13, data14, data15, data16, data15, data18, data19,
          data18, data21, data22, data21, 0x2e, data25, data26, data27, data25, data26,
          data27, data25, data26, data33, data34, 0x40, 0x40, 0x2c, 0x00, 0x00])"

definition setup_adc :: "ad9361_device_t \<Rightarrow> ad9361_device_t" where
  "setup_adc s =
     (let bbbw_mhz = (((bbpll_freq s / 1000000) / real (unat (rx_bbf_tunediv s))) * ln 2)
                       / (1.4 * 2 * pi);
          bbbw_mhz = (if bbbw_mhz > 28 then 28 else if bbbw_mhz < 0.20 then 0.20 else bbbw_mhz);
          (r, s) = peek8 0x1eb s; rxbbf_c3_msb = r AND 0x3F;
          (r, s) = peek8 0x1ec s; rxbbf_c3_lsb = r AND 0x7F;
          (r, s) = peek8 0x1e6 s; rxbbf_r2346 = r AND 0x07
      in pokes (zip (map (\<lambda>i. 0x200 + i) [0..<40])
                    (setup_adc_data bbbw_mhz rxbbf_c3_msb rxbbf_c3_lsb rxbbf_r2346
                       (adcclock_freq s))) s)"

definition calibrate_baseband_dc_offset :: "ad9361_device_t \<Rightarrow> unit result" where
  "calibrate_baseband_dc_offset s =
     poll_wait 0x016 0x01 False 100 Baseband_DC_Offset_Calibration_Failure 0
       (pokes [(0x193, 0x3f), (0x190, 0x0f), (0x194, 0x01), (0x016, 0x01)] s)"

definition calibrate_rf_dc_offset :: "ad9361_device_t \<Rightarrow> unit result" where
  "calibrate_rf_dc_offset s =
     (let s = (if rx_freq s < 4000000000
               then pokes [(0x186, 0x32), (0x187, 0x24), (0x188, 0x05)] s
               else pokes [(0x186, 0x28), (0x187, 0x34), (0x188, 0x06)] s)
      in poll_wait 0x016 0x02 False 100 RF_DC_Offset_Calibration_Failure 0
           (pokes [(0x185, 0x20), (0x18b, 0x83), (0x189, 0x30), (0x016, 0x02)] s))"

definition calibrate_rx_quadrature :: "ad9361_device_t \<Rightarrow> ad9361_device_t" where
  "calibrate_rx_quadrature s =
     pokes [(0x168, 0x03), (0x16e, 0x25), (0x16a, 0x75), (0x16b, 0x15), (0x169, 0xcf),
            (0x18b, 0xad)] s"

definition tx_quadrature_cal_routine :: "ad9361_device_t \<Rightarrow> unit result" where
  "tx_quadrature_cal_routine s =
     (let (reg0a3, s) = peek8 0x0a3 s;
          nco_freq = reg0a3 AND 0xC0;
          s = poke8 0x0a0 (0x15 OR drop_bit 1 nco_freq) s;
          (reg0a3, s) = peek8 0x0a3 s;
          s = poke8 0x0a3 ((reg0a3 AND 0x3F) OR nco_freq) s;
          max_cal_freq = (((baseband_bw s * of_int (tfir_factor s))
                            * of_int (uint (drop_bit 6 nco_freq) + 1)) / 32) * 2;
          bbbw = baseband_bw s / 2;
          bbbw = (if bbbw > 28000000 then 28000000 else if bbbw < 200000 then 200000 else bbbw)
      in if max_cal_freq > bbbw then Err Max_cal_freq_gt_bbbw s
         else
           (let s = pokes [(0x0a1, 0x7B), (0x0a9, 0xff), (0x0a2, 0x7f), (0x0a5, 0x01),
                           (0x0a6, 0x01)] s;
                s = (if (rx_freq s \<ge> 1300000000) \<and> (rx_freq s < 4000000000)
                     then poke8 0x0aa 0x22 s else poke8 0x0aa 0x25 s);
                s = pokes [(0x0a4, 0xf0), (0x0ae, 0x00)] s
            in and_then (calibrate_baseband_dc_offset s)
                 (\<lambda>u s. and_then (calibrate_rf_dc_offset s)
                   (\<lambda>u s. poll_wait 0x016 0x10 False 100 TX_Quadrature_Calibration_Failure 0
                              (poke8 0x016 0x10 s)))))"

definition calibrate_tx_quadrature :: "ad9361_device_t \<Rightarrow> unit result" where
  "calibrate_tx_quadrature s =
     (let (r, s) = peek8 0x017 s
      in if r AND 0x0F \<noteq> 5 then Err TX_Quad_Cal_not_in_ALERT s
         else
           (let s = poke8 0x169 0xc0 s;
                orig_reg_inputsel = inputsel (regs s);
                s = s\<lparr>regs := (regs s)\<lparr>inputsel := inputsel (regs s) AND 0xBF\<rparr>\<rparr>;
                s = poke8 0x004 (inputsel (regs s)) s
            in and_then (tx_quadrature_cal_routine s)
                 (\<lambda>u s.
                    let s = s\<lparr>regs := (regs s)\<lparr>inputsel := inputsel (regs s) OR 0x40\<rparr>\<rparr>;
                        s = poke8 0x004 (inputsel (regs s)) s
                    in and_then (tx_quadrature_cal_routine s)
                         (\<lambda>u s.
                            let s = s\<lparr>regs := (regs s)\<lparr>inputsel := orig_reg_inputsel\<rparr>\<rparr>
                            in Ok () (poke8 0x004 orig_reg_inputsel s)))))"

subsection \<open>Other setup functions\<close>

definition mixer_gain :: "u8 list" where
  "mixer_gain = [0x78, 0x74, 0x70, 0x6C, 0x68, 0x64, 0x60, 0x5C, 0x58,
                 0x54, 0x50, 0x4C, 0x48, 0x30, 0x18, 0x00]"

definition mixer_gm :: "u8 list" where
  "mixer_gm = [0x00, 0x0D, 0x15, 0x1B, 0x21, 0x25, 0x29, 0x2C, 0x2F, 0x31,
               0x33, 0x34, 0x35, 0x3A, 0x3D, 0x3E]"

definition program_mixer_gm_subtable :: "ad9361_device_t \<Rightarrow> ad9361_device_t" where
  "program_mixer_gm_subtable s =
     (let s = poke8 0x13f 0x02 s;
          s = fold (\<lambda>i. pokes
                [(0x138, of_nat i), (0x139, mixer_gain ! (15 - i)), (0x13A, 0x00),
                 (0x13B, mixer_gm ! (15 - i)), (0x13F, 0x06), (0x13C, 0x00), (0x13C, 0x00)])
                (rev [0..<16]) s
      in pokes [(0x13f, 0x02), (0x13C, 0x00), (0x13C, 0x00), (0x13f, 0x00)] s)"

definition program_gain_table :: "ad9361_tables \<Rightarrow> ad9361_device_t \<Rightarrow> unit result" where
  "program_gain_table tb s =
     (if \<not> (rx_freq s < 1300000000) \<and> \<not> (rx_freq s < 4000000000) \<and> \<not> (rx_freq s \<le> 6000000000)
      then Err Wrong_rx_freq_value s
      else
        (let gain_table = (if rx_freq s < 1300000000 then gain_table_sub_1300mhz tb
                           else if rx_freq s < 4000000000 then gain_table_1300mhz_to_4000mhz tb
                           else gain_table_4000mhz_to_6000mhz tb);
             new_gain_table = (if rx_freq s < 1300000000 then 1
                               else if rx_freq s < 4000000000 then 2 else 3)
         in if curr_gain_table s = new_gain_table then Ok () s
            else
              (let s = s\<lparr>curr_gain_table := new_gain_table\<rparr>;
                   s = poke8 0x137 0x1A s;
                   s = fold (\<lambda>index. pokes
                         [(0x130, of_nat index), (0x131, gain_table index 1),
                          (0x132, gain_table index 2), (0x133, gain_table index 3),
                          (0x137, 0x1E), (0x134, 0x00), (0x134, 0x00)])
                         [0..<77] s;
                   s = fold (\<lambda>index. pokes
                         [(0x130, of_nat index), (0x131, 0x00), (0x132, 0x00), (0x133, 0x00),
                          (0x137, 0x1E), (0x134, 0x00), (0x134, 0x00)])
                         [77..<91] s
               in Ok () (pokes [(0x137, 0x1A), (0x134, 0x00), (0x134, 0x00), (0x137, 0x00)] s))))"

definition setup_gain_control :: "ad9361_device_t \<Rightarrow> ad9361_device_t" where
  "setup_gain_control s =
     pokes [(0x0FA, 0xE0), (0x0FB, 0x08), (0x0FC, 0x23), (0x0FD, 0x4C), (0x0FE, 0x44),
            (0x100, 0x6F), (0x104, 0x2F), (0x105, 0x3A), (0x107, 0x31), (0x108, 0x39),
            (0x109, 0x23), (0x10A, 0x58), (0x10B, 0x00), (0x10C, 0x23), (0x10D, 0x18),
            (0x10E, 0x00), (0x114, 0x30), (0x11A, 0x27), (0x081, 0x00)] s"

text \<open>
  The table search of \<^verbatim>\<open>_setup_synth\<close>: the loop over the 53 rows from row \<open>i\<close> on,
  returning \<^verbatim>\<open>vcoindex\<close> as it is when the loop is left.
\<close>

function setup_synth_vcoindex :: "ad9361_tables \<Rightarrow> double \<Rightarrow> nat \<Rightarrow> int \<Rightarrow> int" where
  "setup_synth_vcoindex tb vcorate i vcoindex =
     (if i < 53 then
        (if vcorate > vco_index tb i then int i
         else setup_synth_vcoindex tb vcorate (i + 1) (int i))
      else vcoindex)"
  by pat_completeness auto
termination
  by (relation "measure (\<lambda>(tb, vcorate, i, vcoindex). 53 - i)") auto

declare setup_synth_vcoindex.simps [simp del]

definition setup_synth ::
  "ad9361_tables \<Rightarrow> direction_t \<Rightarrow> double \<Rightarrow> ad9361_device_t \<Rightarrow> unit result" where
  "setup_synth tb direction vcorate s =
     (let vcoindex = setup_synth_vcoindex tb vcorate 0 0
      in if vcoindex > 53 then Err Vcoindex_gt_53 s
         else
           (let row = synth_cal_lut tb (nat vcoindex);
                vco_output_level = row 0; vco_varactor = row 1; vco_bias_ref = row 2;
                vco_bias_tcf = row 3; vco_cal_offset = row 4; vco_varactor_ref = row 5;
                charge_pump_curr = row 6; loop_filter_c2 = row 7; loop_filter_c1 = row 8;
                loop_filter_r1 = row 9; loop_filter_c3 = row 10; loop_filter_r3 = row 11
            in if direction = RX then
                 Ok () (pokes
                   [(0x23a, 0x40 OR vco_output_level), (0x239, 0xC0 OR vco_varactor),
                    (0x242, vco_bias_ref OR push_bit 3 vco_bias_tcf),
                    (0x238, push_bit 3 vco_cal_offset), (0x245, 0x00),
                    (0x251, vco_varactor_ref), (0x250, 0x70),
                    (0x23b, 0x80 OR charge_pump_curr),
                    (0x23e, loop_filter_c1 OR push_bit 4 loop_filter_c2),
                    (0x23f, loop_filter_c3 OR push_bit 4 loop_filter_r1),
                    (0x240, loop_filter_r3)] s)
               else
                 Ok () (pokes
                   [(0x27a, 0x40 OR vco_output_level), (0x279, 0xC0 OR vco_varactor),
                    (0x282, vco_bias_ref OR push_bit 3 vco_bias_tcf),
                    (0x278, push_bit 3 vco_cal_offset), (0x285, 0x00),
                    (0x291, vco_varactor_ref), (0x290, 0x70),
                    (0x27b, 0x80 OR charge_pump_curr),
                    (0x27e, loop_filter_c1 OR push_bit 4 loop_filter_c2),
                    (0x27f, loop_filter_c3 OR push_bit 4 loop_filter_r1),
                    (0x280, loop_filter_r3)] s)))"

subsection \<open>The baseband PLL\<close>

text \<open>
  The divider search of \<^verbatim>\<open>_tune_bbvco\<close>: the loop \<^verbatim>\<open>for (; i <= 6; i++)\<close> from \<open>i\<close>
  on, returning \<open>(i, vcodiv, vcorate)\<close> as they are when the loop is left; \<open>i = 7\<close>
  says that no \<^verbatim>\<open>break\<close> was taken.
\<close>

function tune_bbvco_loop :: "double \<Rightarrow> nat \<Rightarrow> int \<Rightarrow> double \<Rightarrow> nat \<times> int \<times> double" where
  "tune_bbvco_loop rate i vcodiv vcorate =
     (if i \<le> 6 then
        (let vcodiv = push_bit i 1;
             vcorate = rate * of_int vcodiv
         in if vcorate \<ge> 672000000 \<and> vcorate \<le> 1430000000 then (i, vcodiv, vcorate)
            else tune_bbvco_loop rate (i + 1) vcodiv vcorate)
      else (i, vcodiv, vcorate))"
  by pat_completeness auto
termination
  by (relation "measure (\<lambda>(rate, i, vcodiv, vcorate). 7 - i)") auto

declare tune_bbvco_loop.simps [simp del]

text \<open>
  The fractional-N words of \<^verbatim>\<open>_tune_bbvco\<close>, as functions of the VCO rate the loop
  settled on: \<^verbatim>\<open>int nint = vcorate / fref\<close> and
  \<^verbatim>\<open>int nfrac = lround(((vcorate / fref) - (double) nint) * (double) modulus)\<close>, with
  the constants \<^verbatim>\<open>fref = 40e6\<close> and \<^verbatim>\<open>modulus = 2088960\<close> of the function.
\<close>

definition tune_bbvco_nint :: "double \<Rightarrow> int" where
  "tune_bbvco_nint vcorate = c_trunc (vcorate / 40000000)"

definition tune_bbvco_nfrac :: "double \<Rightarrow> int" where
  "tune_bbvco_nfrac vcorate =
     lround (((vcorate / 40000000) - of_int (tune_bbvco_nint vcorate)) * of_int 2088960)"

definition tune_bbvco :: "double \<Rightarrow> ad9361_device_t \<Rightarrow> double result" where
  "tune_bbvco rate s =
     (if freq_is_nearly_equal rate (req_coreclk s) then Ok (adcclock_freq s) s
      else
        (let s = s\<lparr>req_coreclk := rate\<rparr>;
             fref = (40000000 :: double);
             modulus = (2088960 :: int);
             (i, vcodiv, vcorate) = tune_bbvco_loop rate 1 0 0
         in if i = 7 then Err Tune_bbvco_wrong_vcorate s
            else
              (let nint = tune_bbvco_nint vcorate;
                   nfrac = tune_bbvco_nfrac vcorate;
                   actual_vcorate = fref * (of_int nint + (of_int nfrac / of_int modulus));
                   icp_baseline = (150 / 1000000 :: double);
                   freq_baseline = (1280000000 :: double);
                   icp = icp_baseline * (actual_vcorate / freq_baseline);
                   icp_reg = c_trunc ((icp / (25 / 1000000)) - 1);
                   s = pokes [(0x045, 0x00), (0x046, word_of_int (icp_reg AND 0x3F)),
                              (0x048, 0xe8), (0x049, 0x5b), (0x04a, 0x35), (0x04b, 0xe0),
                              (0x04e, 0x10),
                              (0x043, word_of_int (nfrac AND 0xFF)),
                              (0x042, word_of_int (drop_bit 8 nfrac AND 0xFF)),
                              (0x041, word_of_int (drop_bit 16 nfrac AND 0xFF)),
                              (0x044, word_of_int nint)] s
               in and_then (calibrate_lock_bbpll s)
                    (\<lambda>u s.
                       let s = s\<lparr>regs := (regs s)\<lparr>bbpll := (bbpll (regs s) AND 0xF8) OR of_nat i\<rparr>\<rparr>;
                           s = s\<lparr>bbpll_freq := actual_vcorate\<rparr>;
                           s = s\<lparr>adcclock_freq := actual_vcorate / of_int vcodiv\<rparr>
                       in Ok (adcclock_freq s) s))))"

subsection \<open>Gains\<close>

text \<open>
  The attenuation word of the TX branch of \<^verbatim>\<open>set_gain\<close>:
  \<^verbatim>\<open>double atten = AD9361_MAX_GAIN - value; int attenreg = atten * 4;\<close>
\<close>

definition set_gain_attenreg :: "double \<Rightarrow> int" where
  "set_gain_attenreg v = c_trunc ((AD9361_MAX_GAIN - v) * 4)"

definition set_gain ::
  "direction_t \<Rightarrow> chain_t \<Rightarrow> double \<Rightarrow> ad9361_device_t \<Rightarrow> double \<times> ad9361_device_t" where
  "set_gain direction chain v s =
     (if direction = RX then
        (let gain_offset = (if rx_freq s < 1300000000 then 5
                            else if rx_freq s < 4000000000 then 3 else (14 :: int));
             gain_index = c_trunc (v + of_int gain_offset);
             gain_index = (if gain_index > 76 then 76 else gain_index);
             gain_index = (if gain_index < 0 then 0 else gain_index);
             s = (if chain = CHAIN_1
                  then poke8 0x109 (word_of_int gain_index) (s\<lparr>rx1_gain := v\<rparr>)
                  else poke8 0x10c (word_of_int gain_index) (s\<lparr>rx2_gain := v\<rparr>))
         in (of_int (gain_index - gain_offset), s))
      else
        (let s = pokes [(0x077, 0x40), (0x07c, 0x40)] s;
             attenreg = set_gain_attenreg v;
             s = (if chain = CHAIN_1
                  then pokes [(0x073, word_of_int (attenreg AND 0xFF)),
                              (0x074, word_of_int (drop_bit 8 attenreg AND 0x01))]
                         (s\<lparr>tx1_gain := v\<rparr>)
                  else pokes [(0x075, word_of_int (attenreg AND 0xFF)),
                              (0x076, word_of_int (drop_bit 8 attenreg AND 0x01))]
                         (s\<lparr>tx2_gain := v\<rparr>))
         in (AD9361_MAX_GAIN - (of_int attenreg / 4), s)))"

definition reprogram_gains :: "ad9361_device_t \<Rightarrow> ad9361_device_t" where
  "reprogram_gains s =
     (let s = snd (set_gain RX CHAIN_1 (rx1_gain s) s);
          s = snd (set_gain RX CHAIN_2 (rx2_gain s) s);
          s = snd (set_gain TX CHAIN_1 (tx1_gain s) s)
      in snd (set_gain TX CHAIN_2 (tx2_gain s) s))"

subsection \<open>The RF PLLs\<close>

text \<open>
  The divider search of \<^verbatim>\<open>_tune_helper\<close>: the loop \<^verbatim>\<open>for (i = 0; i <= 6; i++)\<close> from
  \<open>i\<close> on, returning \<open>(i, vcodiv, vcorate)\<close> as they are when the loop is left.
\<close>

function tune_helper_loop :: "double \<Rightarrow> nat \<Rightarrow> int \<Rightarrow> double \<Rightarrow> nat \<times> int \<times> double" where
  "tune_helper_loop v i vcodiv vcorate =
     (if i \<le> 6 then
        (let vcodiv = push_bit i 2;
             vcorate = v * of_int vcodiv
         in if vcorate \<ge> 6000000000 \<and> vcorate \<le> 12000000000 then (i, vcodiv, vcorate)
            else tune_helper_loop v (i + 1) vcodiv vcorate)
      else (i, vcodiv, vcorate))"
  by pat_completeness auto
termination
  by (relation "measure (\<lambda>(v, i, vcodiv, vcorate). 7 - i)") auto

declare tune_helper_loop.simps [simp del]

definition tune_helper ::
  "ad9361_tables \<Rightarrow> direction_t \<Rightarrow> double \<Rightarrow> ad9361_device_t \<Rightarrow> double result" where
  "tune_helper tb direction v s =
     (let fref = (80000000 :: double);
          modulus = (8388593 :: int);
          (i, vcodiv, vcorate) = tune_helper_loop v 0 0 0
      in if i = 7 then Err RFVCO_no_valid_VCO_rate s
         else
           (let nint = c_trunc (vcorate / fref);
                nfrac = c_trunc (((vcorate / fref) - of_int nint) * of_int modulus);
                actual_vcorate = fref * (of_int nint + of_int nfrac / of_int modulus);
                actual_lo = actual_vcorate / of_int vcodiv;
                edge = get_band_edge (client_params s)
            in if direction = RX then
                 (let s = s\<lparr>req_rx_freq := v\<rparr>
                  in if \<not> (v < edge AD9361_RX_BAND0)
                        \<and> \<not> ((v \<ge> edge AD9361_RX_BAND0) \<and> (v < edge AD9361_RX_BAND1))
                        \<and> \<not> ((v \<ge> edge AD9361_RX_BAND1) \<and> (v \<le> 6000000000))
                     then Err Tune_helper_INVALID_CODE_PATH s
                     else
                       (let s = s\<lparr>regs := (regs s)\<lparr>inputsel :=
                                  (if v < edge AD9361_RX_BAND0
                                     then (inputsel (regs s) AND 0xC0) OR 0x30
                                   else if (v \<ge> edge AD9361_RX_BAND0) \<and> (v < edge AD9361_RX_BAND1)
                                     then (inputsel (regs s) AND 0xC0) OR 0x0C
                                   else (inputsel (regs s) AND 0xC0) OR 0x03)\<rparr>\<rparr>;
                            s = poke8 0x004 (inputsel (regs s)) s;
                            s = s\<lparr>regs := (regs s)\<lparr>vcodivs :=
                                  (vcodivs (regs s) AND 0xF0) OR (of_nat i AND 0x0F)\<rparr>\<rparr>
                        in and_then (setup_synth tb RX actual_vcorate s)
                             (\<lambda>u s.
                                let s = pokes [(0x233, word_of_int (nfrac AND 0xFF)),
                                               (0x234, word_of_int (drop_bit 8 nfrac AND 0xFF)),
                                               (0x235, word_of_int (drop_bit 16 nfrac AND 0xFF)),
                                               (0x232, word_of_int (drop_bit 8 nint AND 0xFF)),
                                               (0x231, word_of_int (nint AND 0xFF)),
                                               (0x005, vcodivs (regs s))] s;
                                    (r, s) = peek8 0x247 s
                                in if r AND 0x02 = 0 then Err RX_PLL_NOT_LOCKED s
                                   else Ok actual_lo (s\<lparr>rx_freq := actual_lo\<rparr>))))
               else
                 (let s = s\<lparr>req_tx_freq := v\<rparr>
                  in if \<not> (v < edge AD9361_TX_BAND0)
                        \<and> \<not> ((v \<ge> edge AD9361_TX_BAND0) \<and> (v \<le> 6000000000))
                     then Err Tune_helper_INVALID_CODE_PATH s
                     else
                       (let s = s\<lparr>regs := (regs s)\<lparr>inputsel :=
                                  (if v < edge AD9361_TX_BAND0
                                     then inputsel (regs s) OR 0x40
                                   else inputsel (regs s) AND 0xBF)\<rparr>\<rparr>;
                            s = poke8 0x004 (inputsel (regs s)) s;
                            s = s\<lparr>regs := (regs s)\<lparr>vcodivs :=
                                  (vcodivs (regs s) AND 0x0F) OR push_bit 4 (of_nat i AND 0x0F)\<rparr>\<rparr>
                        in and_then (setup_synth tb TX actual_vcorate s)
                             (\<lambda>u s.
                                let s = pokes [(0x273, word_of_int (nfrac AND 0xFF)),
                                               (0x274, word_of_int (drop_bit 8 nfrac AND 0xFF)),
                                               (0x275, word_of_int (drop_bit 16 nfrac AND 0xFF)),
                                               (0x272, word_of_int (drop_bit 8 nint AND 0xFF)),
                                               (0x271, word_of_int (nint AND 0xFF)),
                                               (0x005, vcodivs (regs s))] s;
                                    (r, s) = peek8 0x287 s
                                in if r AND 0x02 = 0 then Err TX_PLL_NOT_LOCKED s
                                   else Ok actual_lo (s\<lparr>tx_freq := actual_lo\<rparr>))))))"

subsection \<open>Rates\<close>

text \<open>
  The \<^verbatim>\<open>if\<close> chain at the head of \<^verbatim>\<open>_setup_rates\<close>, which assigns
  \<^verbatim>\<open>_regs.rxfilt\<close>, \<^verbatim>\<open>_regs.txfilt\<close>, \<^verbatim>\<open>divfactor\<close> and \<^verbatim>\<open>_tfir_factor\<close>
  together: the four values in this order, or \<open>None\<close> where the chain ends in its
  \<^verbatim>\<open>throw\<close>.
\<close>

definition setup_rates_select :: "double \<Rightarrow> (u8 \<times> u8 \<times> int \<times> int) option" where
  "setup_rates_select rate =
     (if rate < 330000 then Some (B8 0x11101111, B8 0x11101111, 48, 2)
      else if rate < 660000 then Some (B8 0x11011111, B8 0x11011111, 32, 2)
      else if rate \<le> 20000000 then Some (B8 0x11011110, B8 0x11011110, 16, 2)
      else if (rate > 20000000) \<and> (rate < 23000000) then Some (B8 0x11101110, B8 0x11100110, 24, 2)
      else if (rate \<ge> 23000000) \<and> (rate < 41000000) then Some (B8 0x11011110, B8 0x11001110, 16, 2)
      else if (rate \<ge> 41000000) \<and> (rate \<le> 56000000) then Some (B8 0x11100110, B8 0x11100010, 12, 2)
      else if (rate > 56000000) \<and> (rate \<le> 61440000) then Some (B8 0x11100010, B8 0x11100001, 6, 1)
      else None)"

text \<open>
  A conversion of a negative double to \<^verbatim>\<open>size_t\<close> is undefined in C++; \<open>nat\<close> makes
  it 0 here. (The quotients converted in \<^verbatim>\<open>_setup_rates\<close> are not negative once
  the BBPLL has been tuned.)
\<close>

definition setup_rates :: "ad9361_tables \<Rightarrow> double \<Rightarrow> ad9361_device_t \<Rightarrow> double result" where
  "setup_rates tb rate s =
     (let s = s\<lparr>req_clock_rate := rate\<rparr>;
          s = s\<lparr>tfir_factor := 0\<rparr>
      in case setup_rates_select rate of
           None \<Rightarrow> Err Setup_rates_INVALID_CODE_PATH s
         | Some (rxf, txf, divfactor, tfir) \<Rightarrow>
             (let s = s\<lparr>regs := (regs s)\<lparr>rxfilt := rxf\<rparr>\<rparr>;
                  s = s\<lparr>regs := (regs s)\<lparr>txfilt := txf\<rparr>\<rparr>;
                  s = s\<lparr>tfir_factor := tfir\<rparr>
              in and_then (tune_bbvco (rate * of_int divfactor) s)
                   (\<lambda>adcclk s.
                      let dacclk = (if adcclk > 336000000 then adcclk / 2.0 else adcclk);
                          s = s\<lparr>regs := (regs s)\<lparr>bbpll :=
                                (if adcclk > 336000000 then bbpll (regs s) OR 0x08
                                 else bbpll (regs s) AND 0xF7)\<rparr>\<rparr>;
                          s = pokes [(0x002, txfilt (regs s)), (0x003, rxfilt (regs s)),
                                     (0x004, inputsel (regs s)), (0x00A, bbpll (regs s))] s;
                          s = s\<lparr>baseband_bw := adcclk / of_int divfactor\<rparr>;
                          max_tx_taps = min (min (nat ((16 * c_trunc ((dacclk / rate) + 0.5)) mod 2 ^ 64)) 128)
                                            (if tfir_factor s = 1 then 64 else 128);
                          max_rx_taps = min (16 * nat (c_trunc ((adcclk / rate) + 0.5))) 128;
                          num_tx_taps = nat (get_num_taps (int max_tx_taps));
                          num_rx_taps = nat (get_num_taps (int max_rx_taps))
                      in and_then (setup_tx_fir tb num_tx_taps s)
                           (\<lambda>u s. and_then (setup_rx_fir tb num_rx_taps s)
                              (\<lambda>u s. Ok (baseband_bw s) s)))))"

subsection \<open>Publicly exported functions\<close>

text \<open>
  The wait of \<^verbatim>\<open>set_active_chains\<close>,
  \<^verbatim>\<open>while (ensm_state == 0xA || ensm_state == 0xB) ensm_state = peek8(0x017) & 0x0F;\<close>
  has no counter, so it is a partial function: \<open>None\<close> is the loop that never ends.
\<close>

partial_function (option) flush_wait :: "u8 \<Rightarrow> ad9361_device_t \<Rightarrow> ad9361_device_t option" where
  "flush_wait ensm_state s =
     (if ensm_state = 0xA \<or> ensm_state = 0xB
      then flush_wait (fst (peek8 0x017 s) AND 0x0F) (snd (peek8 0x017 s))
      else Some s)"

text \<open>
  \<^verbatim>\<open>set_active_chains\<close> in its two parts: the statements that set the chain bits of
  the two shadow registers (before the first register access), and the exchange with
  the chip that follows.
\<close>

definition set_active_chains_regs ::
  "bool \<Rightarrow> bool \<Rightarrow> bool \<Rightarrow> bool \<Rightarrow> ad9361_device_t \<Rightarrow> ad9361_device_t" where
  "set_active_chains_regs tx1 tx2 rx1 rx2 s =
     (let s = s\<lparr>regs := (regs s)\<lparr>txfilt := txfilt (regs s) AND 0x3F\<rparr>\<rparr>;
          s = s\<lparr>regs := (regs s)\<lparr>rxfilt := rxfilt (regs s) AND 0x3F\<rparr>\<rparr>;
          s = (if tx1 then s\<lparr>regs := (regs s)\<lparr>txfilt := txfilt (regs s) OR 0x40\<rparr>\<rparr> else s);
          s = (if tx2 then s\<lparr>regs := (regs s)\<lparr>txfilt := txfilt (regs s) OR 0x80\<rparr>\<rparr> else s);
          s = (if rx1 then s\<lparr>regs := (regs s)\<lparr>rxfilt := rxfilt (regs s) OR 0x40\<rparr>\<rparr> else s)
      in if rx2 then s\<lparr>regs := (regs s)\<lparr>rxfilt := rxfilt (regs s) OR 0x80\<rparr>\<rparr> else s)"

definition set_active_chains ::
  "bool \<Rightarrow> bool \<Rightarrow> bool \<Rightarrow> bool \<Rightarrow> ad9361_device_t \<Rightarrow> ad9361_device_t option" where
  "set_active_chains tx1 tx2 rx1 rx2 s =
     (let s = set_active_chains_regs tx1 tx2 rx1 rx2 s;
          (r, s) = peek8 0x017 s;
          ensm_state = r AND 0x0F;
          set_back_to_fdd = (ensm_state = 0xA);
          s = (if ensm_state = 0xA then poke8 0x014 0x01 s else s)
      in case flush_wait ensm_state s of
           None \<Rightarrow> None
         | Some s \<Rightarrow>
             (let s = pokes [(0x002, txfilt (regs s)), (0x003, rxfilt (regs s))] s
              in Some (if set_back_to_fdd then poke8 0x014 0x21 s else s)))"

definition initialize :: "ad9361_tables \<Rightarrow> ad9361_device_t \<Rightarrow> unit result option" where
  "initialize tb s =
     (let s = s\<lparr>regs := \<lparr>vcodivs = 0x00, inputsel = 0x30, rxfilt = 0x00, txfilt = 0x00,
                          bbpll = 0x02, bbftune_config = 0x1e, bbftune_mode = 0x1e\<rparr>\<rparr>;
          s = s\<lparr>rx_freq := 0, tx_freq := 0, req_rx_freq := 0, req_tx_freq := 0,
                baseband_bw := 0, req_clock_rate := 0, req_coreclk := 0, bbpll_freq := 0,
                adcclock_freq := 0, rx_bbf_tunediv := 0, curr_gain_table := 0,
                rx1_gain := 0, rx2_gain := 0, tx1_gain := 0, tx2_gain := 0\<rparr>;
          s = pokes [(0x000, 0x01), (0x000, 0x00), (0x3df, 0x01), (0x2a6, 0x0e), (0x2a8, 0x0e),
                     (0x2ab, 0x07), (0x2ac, 0xff)] s;
          mode = get_digital_interface_mode (client_params s);
          timing = get_digital_interface_timing (client_params s);
          r =
            and_then
              (case get_clocking_mode (client_params s) of
                 AD9361_XTAL_N_CLK_PATH \<Rightarrow> Ok () (poke8 0x009 0x17 s)
               | AD9361_XTAL_P_CLK_PATH \<Rightarrow>
                   Ok () (pokes [(0x009, 0x07), (0x292, 0x08), (0x293, 0x80), (0x294, 0x00),
                                 (0x295, 0x14)] s)
               | CLOCKING_MODE_OTHER \<Rightarrow> Err NOT_IMPLEMENTED s)
            (\<lambda>u s. and_then (setup_rates tb 50000000 s)
            (\<lambda>rate s. and_then
              (case mode of
                 AD9361_DDR_FDD_LVCMOS \<Rightarrow>
                   Ok () (pokes [(0x010, 0xc8), (0x011, 0x00), (0x012, 0x02)] s)
               | AD9361_DDR_FDD_LVDS \<Rightarrow>
                   Ok () (pokes [(0x010, 0xcc), (0x011, 0x00), (0x012, 0x10),
                                 (0x03C, 0x23), (0x03D, 0xFF), (0x03E, 0x0F)] s)
               | DIGITAL_INTERFACE_MODE_OTHER \<Rightarrow> Err NOT_IMPLEMENTED s)
            (\<lambda>u s.
              let rx_delays = push_bit 4 (rx_clk_delay timing AND 0xF) OR (rx_data_delay timing AND 0xF);
                  tx_delays = push_bit 4 (tx_clk_delay timing AND 0xF) OR (tx_data_delay timing AND 0xF);
                  s = pokes [(0x006, rx_delays), (0x007, tx_delays)] s;
                  s = pokes [(0x018, 0x00), (0x019, 0x00), (0x01A, 0x00), (0x01B, 0x00),
                             (0x022, 0x4A), (0x023, 0xFF), (0x026, 0x00), (0x030, 0x00),
                             (0x031, 0x00), (0x032, 0x00), (0x033, 0x00)] s;
                  s = pokes [(0x00B, 0x00), (0x00C, 0x00), (0x00D, 0x03), (0x00F, 0x04),
                             (0x01C, 0x10), (0x01D, 0x01)] s;
                  s = pokes [(0x035, 0x07), (0x036, 0xFF)] s;
                  s = pokes [(0x03a, 0x27), (0x020, 0x00), (0x027, 0x03), (0x028, 0x00),
                             (0x029, 0x00), (0x02A, 0x00), (0x02B, 0x00), (0x02C, 0x00),
                             (0x02D, 0x00), (0x02E, 0x00), (0x02F, 0x00)] s;
                  s = pokes [(0x261, 0x00), (0x2a1, 0x00), (0x248, 0x0b), (0x288, 0x0b),
                             (0x246, 0x02), (0x286, 0x02), (0x249, 0x8e), (0x289, 0x8e),
                             (0x23b, 0x80), (0x27b, 0x80), (0x243, 0x0d), (0x283, 0x0d),
                             (0x23d, 0x00), (0x27d, 0x00)] s;
                  s = pokes [(0x015, 0x04), (0x014, 0x05), (0x013, 0x01)] s
              in and_then (calibrate_synth_charge_pumps s)
            (\<lambda>u s. and_then (tune_helper tb RX 800000000 s)
            (\<lambda>f s. and_then (tune_helper tb TX 850000000 s)
            (\<lambda>f s. and_then (program_gain_table tb (program_mixer_gm_subtable s))
            (\<lambda>u s. and_then (calibrate_baseband_rx_analog_filter (setup_gain_control s))
            (\<lambda>b s. and_then (calibrate_baseband_tx_analog_filter s)
            (\<lambda>b s. and_then (calibrate_rx_TIAs s)
            (\<lambda>u s. and_then (calibrate_secondary_tx_filter s)
            (\<lambda>u s. and_then (calibrate_tx_quadrature (setup_adc s))
            (\<lambda>u s. and_then
              (case mode of
                 AD9361_DDR_FDD_LVCMOS \<Rightarrow> Ok () (poke8 0x012 0x02 (calibrate_rx_quadrature s))
               | AD9361_DDR_FDD_LVDS \<Rightarrow> Ok () (poke8 0x012 0x10 (calibrate_rx_quadrature s))
               | DIGITAL_INTERFACE_MODE_OTHER \<Rightarrow> Err NOT_IMPLEMENTED (calibrate_rx_quadrature s))
            (\<lambda>u s.
              let s = pokes [(0x013, 0x01), (0x015, 0x04)] s;
                  s = pokes [(0x073, 0x00), (0x074, 0x00), (0x075, 0x00), (0x076, 0x00)] s
              in Ok () (pokes [(0x150, 0x0E), (0x151, 0x00), (0x152, 0xFF), (0x153, 0x00),
                               (0x154, 0x00), (0x155, 0x00), (0x156, 0x00), (0x157, 0x00),
                               (0x158, 0x0D), (0x15C, 0x67)] s))))))))))))))
      in case r of
           Err e s \<Rightarrow> Some (Err e s)
         | Ok u s \<Rightarrow>
             (case set_active_chains True False False False s of
                None \<Rightarrow> None
              | Some s \<Rightarrow> Some (Ok () (poke8 0x014 0x21 s))))"

definition set_clock_rate :: "ad9361_tables \<Rightarrow> double \<Rightarrow> ad9361_device_t \<Rightarrow> double result" where
  "set_clock_rate tb req_rate s =
     (if req_rate > 61440000 then Err Clock_rate_outside_range s
      else if freq_is_nearly_equal req_rate (req_clock_rate s) then Ok (baseband_bw s) s
      else
        (let (r, s) = peek8 0x017 s;
             current_state = r AND 0x0F
         in if current_state \<noteq> 0x05 \<and> current_state \<noteq> 0x0A
            then Err Set_clock_rate_1_unknown_state s
            else
              (let s = (if current_state = 0x05 then pokes [(0x014, 0x21), (0x014, 0x00)] s
                        else poke8 0x014 0x00 s);
                   orig_tx_chains = txfilt (regs s) AND 0xC0;
                   orig_rx_chains = rxfilt (regs s) AND 0xC0;
                   mode = get_digital_interface_mode (client_params s)
               in and_then (setup_rates tb req_rate s)
            (\<lambda>rate s. and_then
              (calibrate_synth_charge_pumps (pokes [(0x015, 0x04), (0x014, 0x05), (0x013, 0x01)] s))
            (\<lambda>u s. and_then (tune_helper tb RX (rx_freq s) s)
            (\<lambda>f s. and_then (tune_helper tb TX (tx_freq s) s)
            (\<lambda>f s. and_then (program_gain_table tb (program_mixer_gm_subtable s))
            (\<lambda>u s. and_then
              (calibrate_baseband_rx_analog_filter (reprogram_gains (setup_gain_control s)))
            (\<lambda>b s. and_then (calibrate_baseband_tx_analog_filter s)
            (\<lambda>b s. and_then (calibrate_rx_TIAs s)
            (\<lambda>u s. and_then (calibrate_secondary_tx_filter s)
            (\<lambda>u s. and_then (calibrate_tx_quadrature (setup_adc s))
            (\<lambda>u s. and_then
              (case mode of
                 AD9361_DDR_FDD_LVCMOS \<Rightarrow> Ok () (poke8 0x012 0x02 (calibrate_rx_quadrature s))
               | AD9361_DDR_FDD_LVDS \<Rightarrow> Ok () (poke8 0x012 0x10 (calibrate_rx_quadrature s))
               | DIGITAL_INTERFACE_MODE_OTHER \<Rightarrow> Err NOT_IMPLEMENTED (calibrate_rx_quadrature s))
            (\<lambda>u s.
              let s = pokes [(0x013, 0x01), (0x015, 0x04)] s
              in if current_state = 0x05 then Ok rate s
                 else if current_state = 0x0A then
                   (let s = s\<lparr>regs := (regs s)\<lparr>txfilt := (txfilt (regs s) AND 0x3F) OR orig_tx_chains\<rparr>\<rparr>;
                        s = s\<lparr>regs := (regs s)\<lparr>rxfilt := (rxfilt (regs s) AND 0x3F) OR orig_rx_chains\<rparr>\<rparr>
                    in Ok rate (pokes [(0x002, txfilt (regs s)), (0x003, rxfilt (regs s)),
                                       (0x014, 0x21)] s))
                 else Err Set_clock_rate_2_unknown_state s))))))))))))))"

definition tune :: "ad9361_tables \<Rightarrow> direction_t \<Rightarrow> double \<Rightarrow> ad9361_device_t \<Rightarrow> double result" where
  "tune tb direction v s =
     (if direction = RX \<and> freq_is_nearly_equal v (req_rx_freq s) then Ok (rx_freq s) s
      else if direction = TX \<and> freq_is_nearly_equal v (req_tx_freq s) then Ok (tx_freq s) s
      else
        (let (r, s) = peek8 0x017 s;
             not_in_alert = (r AND 0x0F \<noteq> 5);
             s = (if not_in_alert then poke8 0x014 0x01 s else s)
         in and_then (tune_helper tb direction v s)
              (\<lambda>tune_freq s. and_then
                 (if direction = RX then program_gain_table tb s else Ok () s)
              (\<lambda>u s. and_then (calibrate_tx_quadrature (reprogram_gains s))
              (\<lambda>u s.
                 let s = calibrate_rx_quadrature s
                 in Ok tune_freq (if not_in_alert then poke8 0x014 0x21 s else s))))))"

definition output_test_tone :: "ad9361_device_t \<Rightarrow> ad9361_device_t" where
  "output_test_tone s = pokes [(0x3F4, 0x0B), (0x3FC, 0xFF), (0x3FD, 0xFF), (0x3FE, 0x3F)] s"

definition data_port_loopback :: "bool \<Rightarrow> ad9361_device_t \<Rightarrow> ad9361_device_t" where
  "data_port_loopback loopback_enabled s = poke8 0x3F5 (if loopback_enabled then 0x01 else 0x00) s"

subsection \<open>Observations on a run\<close>

text \<open>
  What a call returned and the device it left, for stating facts about concrete runs.
\<close>

definition returned :: "'a result \<Rightarrow> 'a option" where
  "returned r = (case r of Ok x s \<Rightarrow> Some x | Err e s \<Rightarrow> None)"

definition thrown :: "'a result \<Rightarrow> error option" where
  "thrown r = (case r of Ok x s \<Rightarrow> None | Err e s \<Rightarrow> Some e)"

definition final :: "'a result \<Rightarrow> ad9361_device_t" where
  "final r = (case r of Ok x s \<Rightarrow> s | Err e s \<Rightarrow> s)"

text \<open>
  The part of the device that is the driver's own: everything but the count of reads
  and the log of writes. Two devices with the same \<open>drv\<close> differ only in the traffic on
  the register interface.
\<close>

definition drv :: "ad9361_device_t \<Rightarrow> ad9361_device_t" where
  "drv s = s\<lparr>io_peeks := 0, io_pokes := []\<rparr>"

text \<open>The rate configuration and the LO state, as the tuples of the fields that hold them.\<close>

definition rate_cfg ::
  "ad9361_device_t \<Rightarrow> u8 \<times> u8 \<times> u8 \<times> double \<times> double \<times> double \<times> double \<times> double \<times> int" where
  "rate_cfg s = (rxfilt (regs s), txfilt (regs s), bbpll (regs s), baseband_bw s, bbpll_freq s,
                 adcclock_freq s, req_clock_rate s, req_coreclk s, tfir_factor s)"

definition lo_cfg :: "ad9361_device_t \<Rightarrow> double \<times> double \<times> double \<times> double" where
  "lo_cfg s = (rx_freq s, tx_freq s, req_rx_freq s, req_tx_freq s)"

definition env :: "ad9361_device_t \<Rightarrow> ad9361_params \<times> (nat \<Rightarrow> nat \<Rightarrow> u8)" where
  "env s = (client_params s, io_answers s)"

text \<open>\<open>keeps p s r\<close>: a call from \<open>s\<close> with the result \<open>r\<close> has not changed \<open>p\<close> if it returned.\<close>

definition keeps :: "(ad9361_device_t \<Rightarrow> 'p) \<Rightarrow> ad9361_device_t \<Rightarrow> 'a result \<Rightarrow> bool" where
  "keeps p s r = (case r of Ok x s' \<Rightarrow> p s' = p s | Err e s' \<Rightarrow> True)"

text \<open>
  \<open>yields R s r\<close>: a call with the result \<open>r\<close>, if it returned, left a device that is
  in the relation \<open>R\<close> to \<open>s\<close>; and \<open>avoids a s s'\<close>: \<open>s'\<close> has the write log of
  \<open>s\<close> with further writes, none of them to register \<open>a\<close>.
\<close>

definition yields ::
  "(ad9361_device_t \<Rightarrow> ad9361_device_t \<Rightarrow> bool) \<Rightarrow> ad9361_device_t \<Rightarrow> 'a result \<Rightarrow> bool" where
  "yields R s r = (case r of Ok x s' \<Rightarrow> R s s' | Err e s' \<Rightarrow> True)"

definition avoids :: "nat \<Rightarrow> ad9361_device_t \<Rightarrow> ad9361_device_t \<Rightarrow> bool" where
  "avoids a s s' = (\<exists>w. io_pokes s' = w @ io_pokes s \<and> a \<notin> fst ` set w)"

text \<open>
  \<open>io_blind p\<close>: the observation \<open>p\<close> of a device does not look at the traffic on the
  register interface.
\<close>

definition io_blind :: "(ad9361_device_t \<Rightarrow> 'p) \<Rightarrow> bool" where
  "io_blind p = (\<forall>a b. drv a = drv b \<longrightarrow> p a = p b)"

subsection \<open>A test bench\<close>

text \<open>
  A chip that is always ready, for runs on concrete inputs: it reports the ENSM state
  ALERT (register 0x017 reads 5), every lock and calibration-done bit as the driver hopes
  to see it at the first read (0x05e, 0x244, 0x284 read 0x80; 0x247, 0x287 read 0x02;
  0x016 reads 0), and the filter codes 1 in registers 0x1eb, 0x1ec, 0x1e6. The client is
  the LVCMOS, N-clock-path one with band edges at 2.2 GHz, 4 GHz (RX) and 2.5 GHz (TX);
  the tables are all zero.
\<close>

definition bench_chip :: "nat \<Rightarrow> nat \<Rightarrow> u8" where
  "bench_chip k a =
     (if a = 0x017 then 0x05
      else if a = 0x05e \<or> a = 0x244 \<or> a = 0x284 then 0x80
      else if a = 0x247 \<or> a = 0x287 then 0x02
      else if a = 0x1eb \<or> a = 0x1ec \<or> a = 0x1e6 then 0x01
      else 0x00)"

definition bench_params :: ad9361_params where
  "bench_params =
     \<lparr>get_clocking_mode = AD9361_XTAL_N_CLK_PATH,
      get_digital_interface_mode = AD9361_DDR_FDD_LVCMOS,
      get_digital_interface_timing =
        \<lparr>rx_clk_delay = 0, rx_data_delay = 0xF, tx_clk_delay = 0, tx_data_delay = 0xF\<rparr>,
      get_band_edge = (\<lambda>b. case b of AD9361_RX_BAND0 \<Rightarrow> 2200000000
                                   | AD9361_RX_BAND1 \<Rightarrow> 4000000000
                                   | AD9361_TX_BAND0 \<Rightarrow> 2500000000)\<rparr>"

definition bench_tables :: ad9361_tables where
  "bench_tables =
     \<lparr>hb127_coeffs = (\<lambda>i. 0), hb95_coeffs = (\<lambda>i. 0), hb63_coeffs = (\<lambda>i. 0),
      hb47_coeffs = (\<lambda>i. 0),
      gain_table_sub_1300mhz = (\<lambda>i j. 0),
      gain_table_1300mhz_to_4000mhz = (\<lambda>i j. 0),
      gain_table_4000mhz_to_6000mhz = (\<lambda>i j. 0),
      vco_index = (\<lambda>i. 0), synth_cal_lut = (\<lambda>i j. 0)\<rparr>"

text \<open>
  A device before \<^verbatim>\<open>initialize\<close>: the state fields are whatever the constructor left
  (zero here; \<^verbatim>\<open>initialize\<close> overwrites them all except \<^verbatim>\<open>_tfir_factor\<close>), nothing
  has been read or written.
\<close>

definition bench_device :: ad9361_device_t where
  "bench_device =
     \<lparr>regs = \<lparr>vcodivs = 0, inputsel = 0, rxfilt = 0, txfilt = 0, bbpll = 0,
              bbftune_config = 0, bbftune_mode = 0\<rparr>,
      rx_freq = 0, tx_freq = 0, req_rx_freq = 0, req_tx_freq = 0, baseband_bw = 0,
      bbpll_freq = 0, adcclock_freq = 0, req_clock_rate = 0, req_coreclk = 0,
      rx_bbf_tunediv = 0, curr_gain_table = 0,
      rx1_gain = 0, rx2_gain = 0, tx1_gain = 0, tx2_gain = 0, tfir_factor = 0,
      client_params = bench_params, io_answers = bench_chip, io_peeks = 0, io_pokes = []\<rparr>"

section \<open>Properties\<close>

subsection \<open>FIR tap snapping\<close>

lemma get_num_taps_loop_unfold:
  "get_num_taps_loop m 1 =
     (if m < 32 then 16 else if m < 48 then 32 else if m < 64 then 48 else if m < 80 then 64
      else if m < 96 then 80 else if m < 112 then 96 else if m < 128 then 112 else 0)"
  by (simp add: get_num_taps_loop.simps num_taps_list_def numeral_eq_Suc)

lemma get_num_taps_eq:
  "get_num_taps m =
     (if m < 32 then 16 else if m < 48 then 32 else if m < 64 then 48 else if m < 80 then 64
      else if m < 96 then 80 else if m < 112 then 96 else if m < 128 then 112 else 128)"
  unfolding get_num_taps_def get_num_taps_loop_unfold by simp

text \<open>
  Claim C4, as the code has it. \<^verbatim>\<open>get_num_taps\<close> applied to 0, 15, 16, 17, 128, 129
  returns 16, 16, 16, 16, 128, 128: the loop starts at index 1 and takes the entry before
  the first one that exceeds the input, so every input below 32 (also one below 16)
  gives the smallest supported count 16; the default 128 is reached only when no entry
  exceeds the input, that is from 128 on. For an input of at least 16 the result is the
  largest supported tap count that is at most the input.
\<close>

theorem get_num_taps_snaps:
  "get_num_taps 0 = 16 \<and> get_num_taps 15 = 16 \<and> get_num_taps 16 = 16
   \<and> get_num_taps 17 = 16 \<and> get_num_taps 128 = 128 \<and> get_num_taps 129 = 128
   \<and> (\<forall>m. m < 32 \<longrightarrow> get_num_taps m = 16)
   \<and> (\<forall>m. 128 \<le> m \<longrightarrow> get_num_taps m = 128)
   \<and> (\<forall>m. 16 \<le> m \<longrightarrow>
          get_num_taps m \<in> set num_taps_list \<and> get_num_taps m \<le> m
          \<and> (\<forall>t \<in> set num_taps_list. t \<le> m \<longrightarrow> t \<le> get_num_taps m))"
  by (simp add: get_num_taps_eq num_taps_list_def)

theorem get_num_taps_snaps_witness:
  "get_num_taps 31 = 16 \<and> get_num_taps 200 = 128
   \<and> get_num_taps 100 \<in> set num_taps_list \<and> get_num_taps 100 \<le> 100
   \<and> (96::int) \<in> set num_taps_list \<and> 96 \<le> get_num_taps 100"
proof -
  have a: "get_num_taps 31 = 16" and b: "get_num_taps 200 = 128"
    and c: "get_num_taps 100 \<in> set num_taps_list \<and> get_num_taps 100 \<le> 100
      \<and> (\<forall>t \<in> set num_taps_list. t \<le> 100 \<longrightarrow> t \<le> get_num_taps 100)"
    using get_num_taps_snaps by simp_all
  have d: "(96::int) \<in> set num_taps_list" by (simp add: num_taps_list_def)
  with c have "96 \<le> get_num_taps 100" by simp
  with a b c d show ?thesis by simp
qed

text \<open>
  The claim as stated expects 128 for the inputs 0 and 15; the code returns 16 there.
\<close>

theorem get_num_taps_below_16_counterexample:
  "get_num_taps 0 = 16 \<and> get_num_taps 0 \<noteq> 128 \<and> get_num_taps 15 = 16 \<and> get_num_taps 15 \<noteq> 128"
  by (simp add: get_num_taps_eq)

subsection \<open>The register interface\<close>

lemma poke8_fields [simp]:
  "regs (poke8 a v s) = regs s" "rx_freq (poke8 a v s) = rx_freq s"
  "tx_freq (poke8 a v s) = tx_freq s" "req_rx_freq (poke8 a v s) = req_rx_freq s"
  "req_tx_freq (poke8 a v s) = req_tx_freq s" "baseband_bw (poke8 a v s) = baseband_bw s"
  "bbpll_freq (poke8 a v s) = bbpll_freq s" "adcclock_freq (poke8 a v s) = adcclock_freq s"
  "req_clock_rate (poke8 a v s) = req_clock_rate s" "req_coreclk (poke8 a v s) = req_coreclk s"
  "rx_bbf_tunediv (poke8 a v s) = rx_bbf_tunediv s"
  "curr_gain_table (poke8 a v s) = curr_gain_table s"
  "rx1_gain (poke8 a v s) = rx1_gain s" "rx2_gain (poke8 a v s) = rx2_gain s"
  "tx1_gain (poke8 a v s) = tx1_gain s" "tx2_gain (poke8 a v s) = tx2_gain s"
  "tfir_factor (poke8 a v s) = tfir_factor s" "client_params (poke8 a v s) = client_params s"
  "io_answers (poke8 a v s) = io_answers s" "io_peeks (poke8 a v s) = io_peeks s"
  "io_pokes (poke8 a v s) = (a, v) # io_pokes s"
  by (simp_all add: poke8_def)

lemma peek8_fields [simp]:
  "fst (peek8 a s) = io_answers s (io_peeks s) a"
  "regs (snd (peek8 a s)) = regs s" "rx_freq (snd (peek8 a s)) = rx_freq s"
  "tx_freq (snd (peek8 a s)) = tx_freq s" "req_rx_freq (snd (peek8 a s)) = req_rx_freq s"
  "req_tx_freq (snd (peek8 a s)) = req_tx_freq s" "baseband_bw (snd (peek8 a s)) = baseband_bw s"
  "bbpll_freq (snd (peek8 a s)) = bbpll_freq s" "adcclock_freq (snd (peek8 a s)) = adcclock_freq s"
  "req_clock_rate (snd (peek8 a s)) = req_clock_rate s"
  "req_coreclk (snd (peek8 a s)) = req_coreclk s"
  "rx_bbf_tunediv (snd (peek8 a s)) = rx_bbf_tunediv s"
  "curr_gain_table (snd (peek8 a s)) = curr_gain_table s"
  "rx1_gain (snd (peek8 a s)) = rx1_gain s" "rx2_gain (snd (peek8 a s)) = rx2_gain s"
  "tx1_gain (snd (peek8 a s)) = tx1_gain s" "tx2_gain (snd (peek8 a s)) = tx2_gain s"
  "tfir_factor (snd (peek8 a s)) = tfir_factor s"
  "client_params (snd (peek8 a s)) = client_params s"
  "io_answers (snd (peek8 a s)) = io_answers s" "io_peeks (snd (peek8 a s)) = Suc (io_peeks s)"
  "io_pokes (snd (peek8 a s)) = io_pokes s"
  by (simp_all add: peek8_def)

lemma drv_poke8 [simp]: "drv (poke8 a v s) = drv s"
  by (simp add: drv_def poke8_def)

lemma drv_peek8 [simp]: "drv (snd (peek8 a s)) = drv s"
  by (simp add: drv_def peek8_def)

lemma drv_pokes [simp]: "drv (pokes l s) = drv s"
  by (induction l arbitrary: s) auto

lemma io_peeks_pokes [simp]: "io_peeks (pokes l s) = io_peeks s"
  by (induction l arbitrary: s) auto

lemma io_pokes_pokes [simp]: "io_pokes (pokes l s) = rev l @ io_pokes s"
  by (induction l arbitrary: s) auto

lemma drv_fold_pokes [simp]: "drv (fold (\<lambda>i. pokes (f i)) xs s) = drv s"
  by (induction xs arbitrary: s) auto

lemma io_peeks_fold_pokes [simp]: "io_peeks (fold (\<lambda>i. pokes (f i)) xs s) = io_peeks s"
  by (induction xs arbitrary: s) auto

lemma io_pokes_fold_pokes:
  "io_pokes (fold (\<lambda>i. pokes (f i)) xs s) = concat (rev (map (\<lambda>i. rev (f i)) xs)) @ io_pokes s"
  by (induction xs arbitrary: s) auto

text \<open>Devices with the same driver part agree on every field of the driver.\<close>

lemma drv_fields:
  assumes "drv s' = drv s"
  shows "regs s' = regs s" "rx_freq s' = rx_freq s" "tx_freq s' = tx_freq s"
    "req_rx_freq s' = req_rx_freq s" "req_tx_freq s' = req_tx_freq s"
    "baseband_bw s' = baseband_bw s" "bbpll_freq s' = bbpll_freq s"
    "adcclock_freq s' = adcclock_freq s" "req_clock_rate s' = req_clock_rate s"
    "req_coreclk s' = req_coreclk s" "rx_bbf_tunediv s' = rx_bbf_tunediv s"
    "curr_gain_table s' = curr_gain_table s" "rx1_gain s' = rx1_gain s"
    "rx2_gain s' = rx2_gain s" "tx1_gain s' = tx1_gain s" "tx2_gain s' = tx2_gain s"
    "tfir_factor s' = tfir_factor s" "client_params s' = client_params s"
    "io_answers s' = io_answers s"
  using assms by (cases s; cases s'; simp add: drv_def)+

lemma drv_cfgs:
  assumes "drv s' = drv s"
  shows "rate_cfg s' = rate_cfg s" "lo_cfg s' = lo_cfg s" "env s' = env s"
  using drv_fields [OF assms] by (simp_all add: rate_cfg_def lo_cfg_def env_def)

lemma drv_eqI:
  "s' = s\<lparr>io_peeks := k, io_pokes := w\<rparr> \<Longrightarrow> drv s' = drv s"
  by (simp add: drv_def)

subsection \<open>Polling\<close>

lemma poll_wait_Ok:
  "poll_wait a m u lm e c s = Ok x s' \<Longrightarrow>
     drv s' = drv s \<and> io_pokes s' = io_pokes s \<and> io_peeks s < io_peeks s'
     \<and> io_peeks s' \<le> io_peeks s + Suc (Suc lm - c)
     \<and> ((io_answers s (io_peeks s' - 1) a AND m \<noteq> 0) = u)
     \<and> (\<forall>k. io_peeks s \<le> k \<and> k < io_peeks s' - 1 \<longrightarrow> (io_answers s k a AND m \<noteq> 0) \<noteq> u)"
proof (induction a m u lm e c s rule: poll_wait.induct)
  case (1 a m u lm e c s)
  show ?case
  proof (cases "(io_answers s (io_peeks s) a AND m \<noteq> 0) = u")
    case True
    with "1.prems" have "s' = snd (peek8 a s)"
      by (simp add: poll_wait.simps [of a m u lm e c s])
    with True show ?thesis by auto
  next
    case False
    with "1.prems" have c: "\<not> lm < c"
      and r: "poll_wait a m u lm e (c + 1) (snd (peek8 a s)) = Ok x s'"
      by (auto simp: poll_wait.simps [of a m u lm e c s] split: if_splits)
    from False c have ih: "drv s' = drv (snd (peek8 a s)) \<and> io_pokes s' = io_pokes (snd (peek8 a s))
        \<and> io_peeks (snd (peek8 a s)) < io_peeks s'
        \<and> io_peeks s' \<le> io_peeks (snd (peek8 a s)) + Suc (Suc lm - (c + 1))
        \<and> ((io_answers (snd (peek8 a s)) (io_peeks s' - 1) a AND m \<noteq> 0) = u)
        \<and> (\<forall>k. io_peeks (snd (peek8 a s)) \<le> k \<and> k < io_peeks s' - 1
              \<longrightarrow> (io_answers (snd (peek8 a s)) k a AND m \<noteq> 0) \<noteq> u)"
      by (intro "1.IH" r) auto
    have earlier: "(io_answers s k a AND m \<noteq> 0) \<noteq> u"
      if "io_peeks s \<le> k" "k < io_peeks s' - 1" for k
    proof (cases "k = io_peeks s")
      case True
      with False show ?thesis by simp
    next
      case False
      with that have "Suc (io_peeks s) \<le> k" by simp
      with ih that show ?thesis by simp
    qed
    from ih have "io_peeks s' \<le> Suc (io_peeks s) + Suc (Suc lm - (c + 1))" by simp
    with c have "io_peeks s' \<le> io_peeks s + Suc (Suc lm - c)" by arith
    with ih earlier show ?thesis by simp
  qed
qed

lemma poll_wait_Err:
  "poll_wait a m u lm e c s = Err e' s' \<Longrightarrow>
     e' = e \<and> drv s' = drv s \<and> io_pokes s' = io_pokes s
     \<and> io_peeks s' = io_peeks s + Suc (Suc lm - c)
     \<and> (\<forall>k. io_peeks s \<le> k \<and> k < io_peeks s' \<longrightarrow> (io_answers s k a AND m \<noteq> 0) \<noteq> u)"
proof (induction a m u lm e c s rule: poll_wait.induct)
  case (1 a m u lm e c s)
  from "1.prems" have miss: "(io_answers s (io_peeks s) a AND m \<noteq> 0) \<noteq> u"
    by (auto simp: poll_wait.simps [of a m u lm e c s] split: if_splits)
  show ?case
  proof (cases "lm < c")
    case True
    with miss "1.prems" have "e' = e" "s' = snd (peek8 a s)"
      by (auto simp: poll_wait.simps [of a m u lm e c s] split: if_splits)
    moreover have "(io_answers s k a AND m \<noteq> 0) \<noteq> u"
      if "io_peeks s \<le> k" "k < Suc (io_peeks s)" for k
    proof -
      from that have "k = io_peeks s" by simp
      with miss show ?thesis by simp
    qed
    ultimately show ?thesis using True by simp
  next
    case False
    with miss "1.prems" have r: "poll_wait a m u lm e (c + 1) (snd (peek8 a s)) = Err e' s'"
      by (auto simp: poll_wait.simps [of a m u lm e c s] split: if_splits)
    from miss False have ih: "e' = e \<and> drv s' = drv (snd (peek8 a s))
        \<and> io_pokes s' = io_pokes (snd (peek8 a s))
        \<and> io_peeks s' = io_peeks (snd (peek8 a s)) + Suc (Suc lm - (c + 1))
        \<and> (\<forall>k. io_peeks (snd (peek8 a s)) \<le> k \<and> k < io_peeks s'
              \<longrightarrow> (io_answers (snd (peek8 a s)) k a AND m \<noteq> 0) \<noteq> u)"
      by (intro "1.IH" r) auto
    have all: "(io_answers s k a AND m \<noteq> 0) \<noteq> u"
      if "io_peeks s \<le> k" "k < io_peeks s'" for k
    proof (cases "k = io_peeks s")
      case True
      with miss show ?thesis by simp
    next
      case False
      with that have "Suc (io_peeks s) \<le> k" by simp
      with ih that show ?thesis by simp
    qed
    from ih have "io_peeks s' = Suc (io_peeks s) + Suc (Suc lm - (c + 1))" by simp
    with False have "io_peeks s' = io_peeks s + Suc (Suc lm - c)" by arith
    with ih all show ?thesis by simp
  qed
qed

text \<open>A poll whose bit is as hoped at the first read returns after that read.\<close>

lemma poll_wait_first:
  "(io_answers s (io_peeks s) a AND m \<noteq> 0) = u \<Longrightarrow>
     poll_wait a m u lm e c s = Ok () (snd (peek8 a s))"
  by (simp add: poll_wait.simps [of a m u lm e c s])

text \<open>The two converses: what the chip's answers make of a poll.\<close>

lemma poll_wait_timeout:
  assumes miss: "\<And>j. j < Suc (Suc lm - c) \<Longrightarrow> (io_answers s (io_peeks s + j) a AND m \<noteq> 0) \<noteq> u"
  shows "\<exists>s'. poll_wait a m u lm e c s = Err e s' \<and> io_peeks s' = io_peeks s + Suc (Suc lm - c)
           \<and> drv s' = drv s \<and> io_pokes s' = io_pokes s"
proof (cases "poll_wait a m u lm e c s")
  case (Ok x s')
  from poll_wait_Ok [OF Ok]
  have b: "io_peeks s < io_peeks s'" "io_peeks s' \<le> io_peeks s + Suc (Suc lm - c)"
    and h: "(io_answers s (io_peeks s' - 1) a AND m \<noteq> 0) = u"
    by simp_all
  from b have "io_peeks s' - 1 = io_peeks s + (io_peeks s' - 1 - io_peeks s)"
    "io_peeks s' - 1 - io_peeks s < Suc (Suc lm - c)" by arith+
  with miss [of "io_peeks s' - 1 - io_peeks s"] h show ?thesis by simp
next
  case (Err e' s')
  from poll_wait_Err [OF Err] Err show ?thesis by simp
qed

lemma poll_wait_done:
  assumes j: "j \<le> Suc lm - c"
    and hit: "(io_answers s (io_peeks s + j) a AND m \<noteq> 0) = u"
    and miss: "\<And>i. i < j \<Longrightarrow> (io_answers s (io_peeks s + i) a AND m \<noteq> 0) \<noteq> u"
  shows "\<exists>s'. poll_wait a m u lm e c s = Ok () s' \<and> io_peeks s' = io_peeks s + Suc j
           \<and> drv s' = drv s \<and> io_pokes s' = io_pokes s"
proof (cases "poll_wait a m u lm e c s")
  case (Ok x s')
  from poll_wait_Ok [OF Ok]
  have b: "io_peeks s < io_peeks s'"
    and h: "(io_answers s (io_peeks s' - 1) a AND m \<noteq> 0) = u"
    and before: "\<And>k. io_peeks s \<le> k \<Longrightarrow> k < io_peeks s' - 1 \<Longrightarrow> (io_answers s k a AND m \<noteq> 0) \<noteq> u"
    and rest: "drv s' = drv s" "io_pokes s' = io_pokes s"
    by simp_all
  have "\<not> io_peeks s + j < io_peeks s' - 1"
    using before [of "io_peeks s + j"] hit by auto
  moreover have "\<not> io_peeks s' - 1 < io_peeks s + j"
  proof
    assume l: "io_peeks s' - 1 < io_peeks s + j"
    with b have "io_peeks s' - 1 = io_peeks s + (io_peeks s' - 1 - io_peeks s)"
      "io_peeks s' - 1 - io_peeks s < j" by arith+
    with miss [of "io_peeks s' - 1 - io_peeks s"] h show False by simp
  qed
  ultimately have "io_peeks s' = io_peeks s + Suc j" using b by arith
  with Ok rest show ?thesis by simp
next
  case (Err e' s')
  from poll_wait_Err [OF Err]
  have "io_peeks s' = io_peeks s + Suc (Suc lm - c)"
    and all: "\<And>k. io_peeks s \<le> k \<Longrightarrow> k < io_peeks s' \<Longrightarrow> (io_answers s k a AND m \<noteq> 0) \<noteq> u"
    by simp_all
  with j have "io_peeks s + j < io_peeks s'" by arith
  with all [of "io_peeks s + j"] hit show ?thesis by simp
qed

lemma and_then_Ok [simp]: "and_then (Ok x s) f = f x s"
  by (simp add: and_then_def)

lemma and_then_Err [simp]: "and_then (Err e s) f = Err e s"
  by (simp add: and_then_def)

lemma and_then_eq_Ok:
  "and_then r f = Ok y s' \<longleftrightarrow> (\<exists>x s1. r = Ok x s1 \<and> f x s1 = Ok y s')"
  by (cases r) auto

lemma and_then_eq_Err:
  "and_then r f = Err e s' \<longleftrightarrow> r = Err e s' \<or> (\<exists>x s1. r = Ok x s1 \<and> f x s1 = Err e s')"
  by (cases r) auto

lemma observations [simp]:
  "returned (Ok x s) = Some x" "returned (Err e s) = None"
  "thrown (Ok x s) = None" "thrown (Err e s) = Some e"
  "final (Ok x s) = s" "final (Err e s) = s"
  by (simp_all add: returned_def thrown_def final_def)

subsection \<open>The synthesizer charge pumps\<close>

lemma charge_pumps_not_alert:
  "io_answers s (io_peeks s) 0x017 AND 0x0F \<noteq> 5 \<Longrightarrow>
     calibrate_synth_charge_pumps s = Err Not_in_ALERT_during_cal (snd (peek8 0x017 s))"
  by (simp add: calibrate_synth_charge_pumps_def)

lemma charge_pumps_Ok:
  assumes "calibrate_synth_charge_pumps s = Ok x s'"
  shows "drv s' = drv s \<and> io_peeks s' \<le> io_peeks s + 15
     \<and> io_pokes s' = [(0x27d, 0), (0x27d, 4), (0x23d, 0), (0x23d, 4)] @ io_pokes s"
proof -
  from assms obtain s1 s2 where
    rx: "poll_wait 0x244 0x80 True 5 RX_charge_pump_cal_failure 0
           (poke8 0x23d 0x04 (snd (peek8 0x017 s))) = Ok () s1"
    and tx: "poll_wait 0x284 0x80 True 5 TX_charge_pump_cal_failure 0
           (poke8 0x27d 0x04 (poke8 0x23d 0x00 s1)) = Ok () s2"
    and s': "s' = poke8 0x27d 0x00 s2"
    by (auto simp: calibrate_synth_charge_pumps_def and_then_eq_Ok split: if_splits)
  from poll_wait_Ok [OF rx] poll_wait_Ok [OF tx] s'
  show ?thesis
    by simp
qed


lemma charge_pumps_Err:
  assumes alert: "io_answers s (io_peeks s) 0x017 AND 0x0F = 5"
    and r: "calibrate_synth_charge_pumps s = Err e s'"
  shows "io_peeks s' \<le> io_peeks s + 15
     \<and> (e = RX_charge_pump_cal_failure \<and> io_peeks s' = io_peeks s + 8
           \<and> io_pokes s' = (0x23d, 4) # io_pokes s
         \<or> e = TX_charge_pump_cal_failure
           \<and> io_pokes s' = [(0x27d, 4), (0x23d, 0), (0x23d, 4)] @ io_pokes s)"
proof -
  from alert r have
    "poll_wait 0x244 0x80 True 5 RX_charge_pump_cal_failure 0
           (poke8 0x23d 0x04 (snd (peek8 0x017 s))) = Err e s'
     \<or> (\<exists>s1. poll_wait 0x244 0x80 True 5 RX_charge_pump_cal_failure 0
           (poke8 0x23d 0x04 (snd (peek8 0x017 s))) = Ok () s1
         \<and> poll_wait 0x284 0x80 True 5 TX_charge_pump_cal_failure 0
           (poke8 0x27d 0x04 (poke8 0x23d 0x00 s1)) = Err e s')"
    by (auto simp: calibrate_synth_charge_pumps_def and_then_eq_Err)
  then show ?thesis
  proof
    assume "poll_wait 0x244 0x80 True 5 RX_charge_pump_cal_failure 0
           (poke8 0x23d 0x04 (snd (peek8 0x017 s))) = Err e s'"
    from poll_wait_Err [OF this] show ?thesis by simp
  next
    assume "\<exists>s1. poll_wait 0x244 0x80 True 5 RX_charge_pump_cal_failure 0
           (poke8 0x23d 0x04 (snd (peek8 0x017 s))) = Ok () s1
         \<and> poll_wait 0x284 0x80 True 5 TX_charge_pump_cal_failure 0
           (poke8 0x27d 0x04 (poke8 0x23d 0x00 s1)) = Err e s'"
    then obtain s1 where
      rx: "poll_wait 0x244 0x80 True 5 RX_charge_pump_cal_failure 0
           (poke8 0x23d 0x04 (snd (peek8 0x017 s))) = Ok () s1"
      and tx: "poll_wait 0x284 0x80 True 5 TX_charge_pump_cal_failure 0
           (poke8 0x27d 0x04 (poke8 0x23d 0x00 s1)) = Err e s'"
      by blast
    from poll_wait_Ok [OF rx] poll_wait_Err [OF tx] show ?thesis by simp
  qed
qed

lemma charge_pumps_rx_timeout:
  assumes alert: "io_answers s (io_peeks s) 0x017 AND 0x0F = 5"
    and miss: "\<And>j. j < 7 \<Longrightarrow> io_answers s (io_peeks s + 1 + j) 0x244 AND 0x80 = 0"
  shows "thrown (calibrate_synth_charge_pumps s) = Some RX_charge_pump_cal_failure"
proof -
  have "\<exists>s'. poll_wait 0x244 0x80 True 5 RX_charge_pump_cal_failure 0
           (poke8 0x23d 0x04 (snd (peek8 0x017 s))) = Err RX_charge_pump_cal_failure s'
      \<and> io_peeks s' = io_peeks (poke8 0x23d 0x04 (snd (peek8 0x017 s))) + Suc (Suc 5 - 0)
      \<and> drv s' = drv (poke8 0x23d 0x04 (snd (peek8 0x017 s)))
      \<and> io_pokes s' = io_pokes (poke8 0x23d 0x04 (snd (peek8 0x017 s)))"
    using miss by (intro poll_wait_timeout) simp
  with alert show ?thesis
    by (auto simp: calibrate_synth_charge_pumps_def)
qed

lemma charge_pumps_tx_timeout:
  assumes alert: "io_answers s (io_peeks s) 0x017 AND 0x0F = 5"
    and n: "n < 7"
    and hit: "io_answers s (io_peeks s + 1 + n) 0x244 AND 0x80 \<noteq> 0"
    and before: "\<And>j. j < n \<Longrightarrow> io_answers s (io_peeks s + 1 + j) 0x244 AND 0x80 = 0"
    and miss: "\<And>j. j < 7 \<Longrightarrow> io_answers s (io_peeks s + 2 + n + j) 0x284 AND 0x80 = 0"
  shows "thrown (calibrate_synth_charge_pumps s) = Some TX_charge_pump_cal_failure
     \<and> io_peeks (final (calibrate_synth_charge_pumps s)) = io_peeks s + 9 + n"
proof -
  let ?s0 = "poke8 0x23d 0x04 (snd (peek8 0x017 s))"
  have "\<exists>s'. poll_wait 0x244 0x80 True 5 RX_charge_pump_cal_failure 0 ?s0 = Ok () s'
      \<and> io_peeks s' = io_peeks ?s0 + Suc n \<and> drv s' = drv ?s0 \<and> io_pokes s' = io_pokes ?s0"
    using n hit before by (intro poll_wait_done) simp_all
  then obtain s1 where
    rx: "poll_wait 0x244 0x80 True 5 RX_charge_pump_cal_failure 0 ?s0 = Ok () s1"
    and k1: "io_peeks s1 = io_peeks s + 2 + n" and d1: "drv s1 = drv s"
    by auto
  let ?s2 = "poke8 0x27d 0x04 (poke8 0x23d 0x00 s1)"
  from d1 have a1: "io_answers s1 = io_answers s" by (rule drv_fields)
  have "\<exists>s'. poll_wait 0x284 0x80 True 5 TX_charge_pump_cal_failure 0 ?s2
          = Err TX_charge_pump_cal_failure s'
      \<and> io_peeks s' = io_peeks ?s2 + Suc (Suc 5 - 0) \<and> drv s' = drv ?s2
      \<and> io_pokes s' = io_pokes ?s2"
    using miss k1 a1 by (intro poll_wait_timeout) simp
  then obtain s3 where
    tx: "poll_wait 0x284 0x80 True 5 TX_charge_pump_cal_failure 0 ?s2
          = Err TX_charge_pump_cal_failure s3"
    and k3: "io_peeks s3 = io_peeks s1 + 7"
    by auto
  from alert rx tx k1 k3 show ?thesis
    by (simp add: calibrate_synth_charge_pumps_def)
qed

lemma charge_pumps_done:
  assumes alert: "io_answers s (io_peeks s) 0x017 AND 0x0F = 5"
    and n: "n < 7"
    and rx_hit: "io_answers s (io_peeks s + 1 + n) 0x244 AND 0x80 \<noteq> 0"
    and rx_before: "\<And>j. j < n \<Longrightarrow> io_answers s (io_peeks s + 1 + j) 0x244 AND 0x80 = 0"
    and m: "m < 7"
    and tx_hit: "io_answers s (io_peeks s + 2 + n + m) 0x284 AND 0x80 \<noteq> 0"
    and tx_before: "\<And>j. j < m \<Longrightarrow> io_answers s (io_peeks s + 2 + n + j) 0x284 AND 0x80 = 0"
  shows "\<exists>s'. calibrate_synth_charge_pumps s = Ok () s' \<and> io_peeks s' = io_peeks s + 3 + n + m"
proof -
  let ?s0 = "poke8 0x23d 0x04 (snd (peek8 0x017 s))"
  have "\<exists>s'. poll_wait 0x244 0x80 True 5 RX_charge_pump_cal_failure 0 ?s0 = Ok () s'
      \<and> io_peeks s' = io_peeks ?s0 + Suc n \<and> drv s' = drv ?s0 \<and> io_pokes s' = io_pokes ?s0"
    using n rx_hit rx_before by (intro poll_wait_done) simp_all
  then obtain s1 where
    rx: "poll_wait 0x244 0x80 True 5 RX_charge_pump_cal_failure 0 ?s0 = Ok () s1"
    and k1: "io_peeks s1 = io_peeks s + 2 + n" and d1: "drv s1 = drv s"
    by auto
  let ?s2 = "poke8 0x27d 0x04 (poke8 0x23d 0x00 s1)"
  from d1 have a1: "io_answers s1 = io_answers s" by (rule drv_fields)
  have "\<exists>s'. poll_wait 0x284 0x80 True 5 TX_charge_pump_cal_failure 0 ?s2 = Ok () s'
      \<and> io_peeks s' = io_peeks ?s2 + Suc m \<and> drv s' = drv ?s2 \<and> io_pokes s' = io_pokes ?s2"
    using m tx_hit tx_before k1 a1 by (intro poll_wait_done) simp_all
  then obtain s3 where
    tx: "poll_wait 0x284 0x80 True 5 TX_charge_pump_cal_failure 0 ?s2 = Ok () s3"
    and k3: "io_peeks s3 = io_peeks s1 + Suc m"
    by auto
  from alert rx tx k1 k3 show ?thesis
    by (simp add: calibrate_synth_charge_pumps_def)
qed

text \<open>What the reads of a poll that returned, or timed out, were: counted from its first read.\<close>

lemma poll_wait_Ok_first:
  assumes "poll_wait a m u lm e 0 s = Ok x s'"
  shows "\<exists>n \<le> Suc lm. io_peeks s' = io_peeks s + Suc n
          \<and> (io_answers s (io_peeks s + n) a AND m \<noteq> 0) = u
          \<and> (\<forall>j<n. (io_answers s (io_peeks s + j) a AND m \<noteq> 0) \<noteq> u)"
proof -
  from poll_wait_Ok [OF assms]
  have b: "io_peeks s < io_peeks s'" "io_peeks s' \<le> io_peeks s + Suc (Suc lm)"
    and h: "(io_answers s (io_peeks s' - 1) a AND m \<noteq> 0) = u"
    and before: "\<And>k. io_peeks s \<le> k \<Longrightarrow> k < io_peeks s' - 1 \<Longrightarrow> (io_answers s k a AND m \<noteq> 0) \<noteq> u"
    by simp_all
  define n where "n = io_peeks s' - 1 - io_peeks s"
  from b have n: "n \<le> Suc lm" "io_peeks s' = io_peeks s + Suc n" "io_peeks s' - 1 = io_peeks s + n"
    unfolding n_def by arith+
  have "(io_answers s (io_peeks s + j) a AND m \<noteq> 0) \<noteq> u" if "j < n" for j
    using before [of "io_peeks s + j"] that n(3) by simp
  with n h show ?thesis by auto
qed

lemma charge_pumps_Ok_reads:
  assumes "calibrate_synth_charge_pumps s = Ok x s'"
  shows "\<exists>n<7. \<exists>m<7. io_peeks s' = io_peeks s + 3 + n + m
          \<and> io_answers s (io_peeks s + 1 + n) 0x244 AND 0x80 \<noteq> 0
          \<and> (\<forall>j<n. io_answers s (io_peeks s + 1 + j) 0x244 AND 0x80 = 0)
          \<and> io_answers s (io_peeks s + 2 + n + m) 0x284 AND 0x80 \<noteq> 0
          \<and> (\<forall>j<m. io_answers s (io_peeks s + 2 + n + j) 0x284 AND 0x80 = 0)"
proof -
  from assms obtain s1 s2 where
    rx: "poll_wait 0x244 0x80 True 5 RX_charge_pump_cal_failure 0
           (poke8 0x23d 0x04 (snd (peek8 0x017 s))) = Ok () s1"
    and tx: "poll_wait 0x284 0x80 True 5 TX_charge_pump_cal_failure 0
           (poke8 0x27d 0x04 (poke8 0x23d 0x00 s1)) = Ok () s2"
    and s': "s' = poke8 0x27d 0x00 s2"
    by (auto simp: calibrate_synth_charge_pumps_def and_then_eq_Ok split: if_splits)
  from poll_wait_Ok_first [OF rx] obtain n where
    n: "n \<le> 6" "io_peeks s1 = io_peeks s + 2 + n"
      "io_answers s (io_peeks s + 1 + n) 0x244 AND 0x80 \<noteq> 0"
      "\<forall>j<n. io_answers s (io_peeks s + 1 + j) 0x244 AND 0x80 = 0"
    by auto
  from poll_wait_Ok [OF rx] have "drv s1 = drv s" by simp
  then have a1: "io_answers s1 = io_answers s" by (rule drv_fields)
  from poll_wait_Ok_first [OF tx] n(2) a1 obtain m where
    m: "m \<le> 6" "io_peeks s2 = io_peeks s + 3 + n + m"
      "io_answers s (io_peeks s + 2 + n + m) 0x284 AND 0x80 \<noteq> 0"
      "\<forall>j<m. io_answers s (io_peeks s + 2 + n + j) 0x284 AND 0x80 = 0"
    by (auto simp: add.assoc)
  from n m s' show ?thesis
    by (intro exI [of _ n] exI [of _ m]) simp
qed

lemma charge_pumps_Err_reads:
  assumes alert: "io_answers s (io_peeks s) 0x017 AND 0x0F = 5"
    and r: "calibrate_synth_charge_pumps s = Err e s'"
  shows "(e = RX_charge_pump_cal_failure \<longrightarrow>
            (\<forall>j<7. io_answers s (io_peeks s + 1 + j) 0x244 AND 0x80 = 0))
       \<and> (e = TX_charge_pump_cal_failure \<longrightarrow>
            (\<exists>n<7. io_peeks s' = io_peeks s + 9 + n
               \<and> io_answers s (io_peeks s + 1 + n) 0x244 AND 0x80 \<noteq> 0
               \<and> (\<forall>j<n. io_answers s (io_peeks s + 1 + j) 0x244 AND 0x80 = 0)
               \<and> (\<forall>j<7. io_answers s (io_peeks s + 2 + n + j) 0x284 AND 0x80 = 0)))"
proof -
  from alert r have
    "poll_wait 0x244 0x80 True 5 RX_charge_pump_cal_failure 0
           (poke8 0x23d 0x04 (snd (peek8 0x017 s))) = Err e s'
     \<or> (\<exists>s1. poll_wait 0x244 0x80 True 5 RX_charge_pump_cal_failure 0
           (poke8 0x23d 0x04 (snd (peek8 0x017 s))) = Ok () s1
         \<and> poll_wait 0x284 0x80 True 5 TX_charge_pump_cal_failure 0
           (poke8 0x27d 0x04 (poke8 0x23d 0x00 s1)) = Err e s')"
    by (auto simp: calibrate_synth_charge_pumps_def and_then_eq_Err)
  then show ?thesis
  proof
    assume rx: "poll_wait 0x244 0x80 True 5 RX_charge_pump_cal_failure 0
           (poke8 0x23d 0x04 (snd (peek8 0x017 s))) = Err e s'"
    from poll_wait_Err [OF rx]
    have e: "e = RX_charge_pump_cal_failure" and k: "io_peeks s' = io_peeks s + 8"
      and all: "\<And>k. Suc (io_peeks s) \<le> k \<Longrightarrow> k < io_peeks s' \<Longrightarrow>
                  io_answers s k 0x244 AND 0x80 = 0"
      by simp_all
    have "io_answers s (io_peeks s + 1 + j) 0x244 AND 0x80 = 0" if "j < 7" for j
      using all [of "io_peeks s + 1 + j"] that k by simp
    with e show ?thesis by simp
  next
    assume "\<exists>s1. poll_wait 0x244 0x80 True 5 RX_charge_pump_cal_failure 0
           (poke8 0x23d 0x04 (snd (peek8 0x017 s))) = Ok () s1
         \<and> poll_wait 0x284 0x80 True 5 TX_charge_pump_cal_failure 0
           (poke8 0x27d 0x04 (poke8 0x23d 0x00 s1)) = Err e s'"
    then obtain s1 where
      rx: "poll_wait 0x244 0x80 True 5 RX_charge_pump_cal_failure 0
           (poke8 0x23d 0x04 (snd (peek8 0x017 s))) = Ok () s1"
      and tx: "poll_wait 0x284 0x80 True 5 TX_charge_pump_cal_failure 0
           (poke8 0x27d 0x04 (poke8 0x23d 0x00 s1)) = Err e s'"
      by blast
    from poll_wait_Ok_first [OF rx] obtain n where
      n: "n \<le> 6" "io_peeks s1 = io_peeks s + 2 + n"
        "io_answers s (io_peeks s + 1 + n) 0x244 AND 0x80 \<noteq> 0"
        "\<forall>j<n. io_answers s (io_peeks s + 1 + j) 0x244 AND 0x80 = 0"
      by auto
    from poll_wait_Ok [OF rx] have "drv s1 = drv s" by simp
    then have a1: "io_answers s1 = io_answers s" by (rule drv_fields)
    from poll_wait_Err [OF tx] a1
    have e: "e = TX_charge_pump_cal_failure" and k: "io_peeks s' = io_peeks s1 + 7"
      and all: "\<And>k. io_peeks s1 \<le> k \<Longrightarrow> k < io_peeks s' \<Longrightarrow>
                  io_answers s k 0x284 AND 0x80 = 0"
      by simp_all
    have "io_answers s (io_peeks s + 2 + n + j) 0x284 AND 0x80 = 0" if "j < 7" for j
      using all [of "io_peeks s + 2 + n + j"] that k n(2) by simp
    with e n k show ?thesis
      by (intro conjI impI) (simp, intro exI [of _ n], simp)
  qed
qed

text \<open>
  Claim C7. The charge-pump calibration reads the ENSM status register first. When its
  low nibble is not 5 (ALERT) it throws the operating-state error with nothing written.
  When it is 5, the RX pump (trigger 0x23d, status 0x244) and then the TX pump (trigger
  0x27d, status 0x284) are each polled with a counter of their own that starts at 0: at
  most 7 reads each, so at most 15 reads in all; a pump whose done bit stays clear for
  its 7 reads ends the call with that pump's own error, and the TX poll gets its 7 reads
  whatever number of reads the RX poll used. The call returns exactly when the RX done
  bit is first seen at one of the 7 RX reads, say read n, and the TX done bit is first
  seen at one of the 7 TX reads that follow, say read m: then it has made 3 + n + m reads
  and written the two triggers and their resets. It throws the RX error exactly when all 7
  RX reads are clear, and the TX error exactly when the RX poll is done and all 7 TX reads
  are clear.
\<close>

theorem calibrate_synth_charge_pumps_bounded:
  "(io_answers s (io_peeks s) 0x017 AND 0x0F \<noteq> 5 \<longrightarrow>
      calibrate_synth_charge_pumps s = Err Not_in_ALERT_during_cal (snd (peek8 0x017 s))
      \<and> io_pokes (snd (peek8 0x017 s)) = io_pokes s)
   \<and> (io_answers s (io_peeks s) 0x017 AND 0x0F = 5 \<longrightarrow>
      (\<forall>s'. calibrate_synth_charge_pumps s = Ok () s' \<longrightarrow>
          drv s' = drv s \<and> io_peeks s' \<le> io_peeks s + 15
          \<and> io_pokes s' = [(0x27d, 0), (0x27d, 4), (0x23d, 0), (0x23d, 4)] @ io_pokes s)
      \<and> (\<forall>e s'. calibrate_synth_charge_pumps s = Err e s' \<longrightarrow>
          io_peeks s' \<le> io_peeks s + 15
          \<and> (e = RX_charge_pump_cal_failure \<and> io_peeks s' = io_peeks s + 8
                \<and> io_pokes s' = (0x23d, 4) # io_pokes s
              \<or> e = TX_charge_pump_cal_failure
                \<and> io_pokes s' = [(0x27d, 4), (0x23d, 0), (0x23d, 4)] @ io_pokes s))
      \<and> ((\<forall>j<7. io_answers s (io_peeks s + 1 + j) 0x244 AND 0x80 = 0) \<longrightarrow>
          thrown (calibrate_synth_charge_pumps s) = Some RX_charge_pump_cal_failure)
      \<and> (\<forall>n<7. io_answers s (io_peeks s + 1 + n) 0x244 AND 0x80 \<noteq> 0
            \<and> (\<forall>j<n. io_answers s (io_peeks s + 1 + j) 0x244 AND 0x80 = 0)
            \<and> (\<forall>j<7. io_answers s (io_peeks s + 2 + n + j) 0x284 AND 0x80 = 0) \<longrightarrow>
          thrown (calibrate_synth_charge_pumps s) = Some TX_charge_pump_cal_failure
          \<and> io_peeks (final (calibrate_synth_charge_pumps s)) = io_peeks s + 9 + n)
      \<and> (\<forall>n<7. \<forall>m<7. io_answers s (io_peeks s + 1 + n) 0x244 AND 0x80 \<noteq> 0
            \<and> (\<forall>j<n. io_answers s (io_peeks s + 1 + j) 0x244 AND 0x80 = 0)
            \<and> io_answers s (io_peeks s + 2 + n + m) 0x284 AND 0x80 \<noteq> 0
            \<and> (\<forall>j<m. io_answers s (io_peeks s + 2 + n + j) 0x284 AND 0x80 = 0) \<longrightarrow>
          (\<exists>s'. calibrate_synth_charge_pumps s = Ok () s'
             \<and> io_peeks s' = io_peeks s + 3 + n + m
             \<and> drv s' = drv s
             \<and> io_pokes s' = [(0x27d, 0), (0x27d, 4), (0x23d, 0), (0x23d, 4)] @ io_pokes s))
      \<and> (\<forall>s'. calibrate_synth_charge_pumps s = Ok () s' \<longrightarrow>
          (\<exists>n<7. \<exists>m<7. io_peeks s' = io_peeks s + 3 + n + m
             \<and> io_answers s (io_peeks s + 1 + n) 0x244 AND 0x80 \<noteq> 0
             \<and> (\<forall>j<n. io_answers s (io_peeks s + 1 + j) 0x244 AND 0x80 = 0)
             \<and> io_answers s (io_peeks s + 2 + n + m) 0x284 AND 0x80 \<noteq> 0
             \<and> (\<forall>j<m. io_answers s (io_peeks s + 2 + n + j) 0x284 AND 0x80 = 0)))
      \<and> (\<forall>s'. calibrate_synth_charge_pumps s = Err RX_charge_pump_cal_failure s' \<longrightarrow>
          (\<forall>j<7. io_answers s (io_peeks s + 1 + j) 0x244 AND 0x80 = 0))
      \<and> (\<forall>s'. calibrate_synth_charge_pumps s = Err TX_charge_pump_cal_failure s' \<longrightarrow>
          (\<exists>n<7. io_peeks s' = io_peeks s + 9 + n
             \<and> io_answers s (io_peeks s + 1 + n) 0x244 AND 0x80 \<noteq> 0
             \<and> (\<forall>j<n. io_answers s (io_peeks s + 1 + j) 0x244 AND 0x80 = 0)
             \<and> (\<forall>j<7. io_answers s (io_peeks s + 2 + n + j) 0x284 AND 0x80 = 0))))
   \<and> RX_charge_pump_cal_failure \<noteq> TX_charge_pump_cal_failure
   \<and> Not_in_ALERT_during_cal \<noteq> RX_charge_pump_cal_failure
   \<and> Not_in_ALERT_during_cal \<noteq> TX_charge_pump_cal_failure"
proof -
  have success: "\<exists>s'. calibrate_synth_charge_pumps s = Ok () s'
             \<and> io_peeks s' = io_peeks s + 3 + n + m
             \<and> drv s' = drv s
             \<and> io_pokes s' = [(0x27d, 0), (0x27d, 4), (0x23d, 0), (0x23d, 4)] @ io_pokes s"
    if "io_answers s (io_peeks s) 0x017 AND 0x0F = 5" "n < 7" "m < 7"
      "io_answers s (io_peeks s + 1 + n) 0x244 AND 0x80 \<noteq> 0"
      "\<forall>j<n. io_answers s (io_peeks s + 1 + j) 0x244 AND 0x80 = 0"
      "io_answers s (io_peeks s + 2 + n + m) 0x284 AND 0x80 \<noteq> 0"
      "\<forall>j<m. io_answers s (io_peeks s + 2 + n + j) 0x284 AND 0x80 = 0"
    for n m
  proof -
    from that have "\<exists>s'. calibrate_synth_charge_pumps s = Ok () s'
        \<and> io_peeks s' = io_peeks s + 3 + n + m"
      by (intro charge_pumps_done) simp_all
    then obtain s' where ok: "calibrate_synth_charge_pumps s = Ok () s'"
      and k: "io_peeks s' = io_peeks s + 3 + n + m"
      by blast
    from charge_pumps_Ok [OF ok] ok k show ?thesis by simp
  qed
  show ?thesis
    apply (intro conjI impI)
    subgoal using charge_pumps_not_alert [of s] by simp
    subgoal by simp
    subgoal using charge_pumps_Ok [of s] by blast
    subgoal using charge_pumps_Err [of s] by blast
    subgoal using charge_pumps_rx_timeout [of s] by blast
    subgoal using charge_pumps_tx_timeout [of s] by blast
    subgoal using success by blast
    subgoal using charge_pumps_Ok_reads [of s] by blast
    subgoal using charge_pumps_Err_reads [of s] by blast
    subgoal using charge_pumps_Err_reads [of s] by blast
    subgoal by simp
    subgoal by simp
    subgoal by simp
    done
qed

theorem calibrate_synth_charge_pumps_bounded_witness:
  "thrown (calibrate_synth_charge_pumps (bench_device\<lparr>io_answers := \<lambda>k a. 0\<rparr>))
     = Some Not_in_ALERT_during_cal
   \<and> io_pokes (final (calibrate_synth_charge_pumps (bench_device\<lparr>io_answers := \<lambda>k a. 0\<rparr>))) = []
   \<and> thrown (calibrate_synth_charge_pumps bench_device) = None
   \<and> io_peeks (final (calibrate_synth_charge_pumps bench_device)) = 3
   \<and> io_pokes (final (calibrate_synth_charge_pumps bench_device))
     = [(0x27d, 0), (0x27d, 4), (0x23d, 0), (0x23d, 4)]
   \<and> thrown (calibrate_synth_charge_pumps
         (bench_device\<lparr>io_answers := \<lambda>k a. if a = 0x017 then 5 else 0\<rparr>))
     = Some RX_charge_pump_cal_failure
   \<and> thrown (calibrate_synth_charge_pumps
         (bench_device\<lparr>io_answers := \<lambda>k a. if a = 0x017 then 5
                                           else if a = 0x244 \<and> 3 \<le> k then 0x80 else 0\<rparr>))
     = Some TX_charge_pump_cal_failure
   \<and> io_peeks (final (calibrate_synth_charge_pumps
         (bench_device\<lparr>io_answers := \<lambda>k a. if a = 0x017 then 5
                                           else if a = 0x244 \<and> 3 \<le> k then 0x80 else 0\<rparr>)))
     = 11
   \<and> thrown (calibrate_synth_charge_pumps
         (bench_device\<lparr>io_answers := \<lambda>k a. if a = 0x017 then 5
                                           else if a = 0x244 \<and> 3 \<le> k then 0x80
                                           else if a = 0x284 \<and> 10 \<le> k then 0x80 else 0\<rparr>))
     = None
   \<and> io_peeks (final (calibrate_synth_charge_pumps
         (bench_device\<lparr>io_answers := \<lambda>k a. if a = 0x017 then 5
                                           else if a = 0x244 \<and> 3 \<le> k then 0x80
                                           else if a = 0x284 \<and> 10 \<le> k then 0x80 else 0\<rparr>)))
     = 11"
proof -
  let ?d0 = "bench_device\<lparr>io_answers := \<lambda>k a. 0\<rparr>"
  let ?d2 = "bench_device\<lparr>io_answers := \<lambda>k a. if a = 0x017 then 5 else 0\<rparr>"
  let ?d3 = "bench_device\<lparr>io_answers := \<lambda>k a. if a = 0x017 then 5
                                           else if a = 0x244 \<and> 3 \<le> k then 0x80 else 0\<rparr>"
  let ?d4 = "bench_device\<lparr>io_answers := \<lambda>k a. if a = 0x017 then 5
                                           else if a = 0x244 \<and> 3 \<le> k then 0x80
                                           else if a = 0x284 \<and> 10 \<le> k then 0x80 else 0\<rparr>"
  have h0: "io_answers ?d0 (io_peeks ?d0) 0x017 AND 0x0F \<noteq> 5" by simp
  have p0: "io_pokes ?d0 = []" by (simp add: bench_device_def)
  from calibrate_synth_charge_pumps_bounded [of ?d0] h0 p0
  have a: "thrown (calibrate_synth_charge_pumps ?d0) = Some Not_in_ALERT_during_cal
      \<and> io_pokes (final (calibrate_synth_charge_pumps ?d0)) = []"
    by simp
  have h1: "io_answers bench_device (io_peeks bench_device) 0x017 AND 0x0F = 5"
    by (simp add: bench_device_def bench_chip_def)
  have k1: "io_peeks bench_device = 0" "io_pokes bench_device = []"
    by (simp_all add: bench_device_def)
  have m1: "io_answers bench_device (io_peeks bench_device + 1 + 0) 0x244 AND 0x80 \<noteq> 0
      \<and> (\<forall>j<0. io_answers bench_device (io_peeks bench_device + 1 + j) 0x244 AND 0x80 = 0)
      \<and> io_answers bench_device (io_peeks bench_device + 2 + 0 + 0) 0x284 AND 0x80 \<noteq> 0
      \<and> (\<forall>j<0. io_answers bench_device (io_peeks bench_device + 2 + 0 + j) 0x284 AND 0x80 = 0)"
    by (simp add: bench_device_def bench_chip_def)
  from calibrate_synth_charge_pumps_bounded [of bench_device] h1
  have "\<forall>n<7. \<forall>m<7.
          io_answers bench_device (io_peeks bench_device + 1 + n) 0x244 AND 0x80 \<noteq> 0
            \<and> (\<forall>j<n. io_answers bench_device (io_peeks bench_device + 1 + j) 0x244 AND 0x80 = 0)
            \<and> io_answers bench_device (io_peeks bench_device + 2 + n + m) 0x284 AND 0x80 \<noteq> 0
            \<and> (\<forall>j<m. io_answers bench_device (io_peeks bench_device + 2 + n + j) 0x284 AND 0x80 = 0) \<longrightarrow>
          (\<exists>s'. calibrate_synth_charge_pumps bench_device = Ok () s'
             \<and> io_peeks s' = io_peeks bench_device + 3 + n + m
             \<and> drv s' = drv bench_device
             \<and> io_pokes s' = [(0x27d, 0), (0x27d, 4), (0x23d, 0), (0x23d, 4)]
                  @ io_pokes bench_device)"
    by blast
  from this [rule_format, of 0 0, OF _ _ m1]
  have "\<exists>s'. calibrate_synth_charge_pumps bench_device = Ok () s'
             \<and> io_peeks s' = io_peeks bench_device + 3 + 0 + 0
             \<and> drv s' = drv bench_device
             \<and> io_pokes s' = [(0x27d, 0), (0x27d, 4), (0x23d, 0), (0x23d, 4)]
                  @ io_pokes bench_device"
    by simp
  then obtain s1 where "calibrate_synth_charge_pumps bench_device = Ok () s1"
    "io_peeks s1 = io_peeks bench_device + 3 + 0 + 0"
    "io_pokes s1 = [(0x27d, 0), (0x27d, 4), (0x23d, 0), (0x23d, 4)] @ io_pokes bench_device"
    by blast
  with k1 have b: "thrown (calibrate_synth_charge_pumps bench_device) = None
      \<and> io_peeks (final (calibrate_synth_charge_pumps bench_device)) = 3
      \<and> io_pokes (final (calibrate_synth_charge_pumps bench_device))
        = [(0x27d, 0), (0x27d, 4), (0x23d, 0), (0x23d, 4)]"
    by simp
  have h2: "io_answers ?d2 (io_peeks ?d2) 0x017 AND 0x0F = 5" by simp
  have m2: "\<forall>j<7. io_answers ?d2 (io_peeks ?d2 + 1 + j) 0x244 AND 0x80 = 0" by simp
  from calibrate_synth_charge_pumps_bounded [of ?d2] h2 m2
  have c: "thrown (calibrate_synth_charge_pumps ?d2) = Some RX_charge_pump_cal_failure"
    by blast
  have h3: "io_answers ?d3 (io_peeks ?d3) 0x017 AND 0x0F = 5" by simp
  have k3: "io_peeks ?d3 = 0" by (simp add: bench_device_def)
  have m3: "io_answers ?d3 (io_peeks ?d3 + 1 + 2) 0x244 AND 0x80 \<noteq> 0
      \<and> (\<forall>j<2. io_answers ?d3 (io_peeks ?d3 + 1 + j) 0x244 AND 0x80 = 0)
      \<and> (\<forall>j<7. io_answers ?d3 (io_peeks ?d3 + 2 + 2 + j) 0x284 AND 0x80 = 0)"
    by (simp add: k3)
  from calibrate_synth_charge_pumps_bounded [of ?d3] h3
  have "\<forall>n<7. io_answers ?d3 (io_peeks ?d3 + 1 + n) 0x244 AND 0x80 \<noteq> 0
            \<and> (\<forall>j<n. io_answers ?d3 (io_peeks ?d3 + 1 + j) 0x244 AND 0x80 = 0)
            \<and> (\<forall>j<7. io_answers ?d3 (io_peeks ?d3 + 2 + n + j) 0x284 AND 0x80 = 0) \<longrightarrow>
          thrown (calibrate_synth_charge_pumps ?d3) = Some TX_charge_pump_cal_failure
          \<and> io_peeks (final (calibrate_synth_charge_pumps ?d3)) = io_peeks ?d3 + 9 + n"
    by blast
  from this [rule_format, of 2, OF _ m3]
  have "thrown (calibrate_synth_charge_pumps ?d3) = Some TX_charge_pump_cal_failure
          \<and> io_peeks (final (calibrate_synth_charge_pumps ?d3)) = io_peeks ?d3 + 9 + 2"
    by simp
  with k3 have d: "thrown (calibrate_synth_charge_pumps ?d3) = Some TX_charge_pump_cal_failure
          \<and> io_peeks (final (calibrate_synth_charge_pumps ?d3)) = 11"
    by simp
  have h4: "io_answers ?d4 (io_peeks ?d4) 0x017 AND 0x0F = 5" by simp
  have k4: "io_peeks ?d4 = 0" by (simp add: bench_device_def)
  have m4: "io_answers ?d4 (io_peeks ?d4 + 1 + 2) 0x244 AND 0x80 \<noteq> 0
      \<and> (\<forall>j<2. io_answers ?d4 (io_peeks ?d4 + 1 + j) 0x244 AND 0x80 = 0)
      \<and> io_answers ?d4 (io_peeks ?d4 + 2 + 2 + 6) 0x284 AND 0x80 \<noteq> 0
      \<and> (\<forall>j<6. io_answers ?d4 (io_peeks ?d4 + 2 + 2 + j) 0x284 AND 0x80 = 0)"
    by (simp add: k4)
  from calibrate_synth_charge_pumps_bounded [of ?d4] h4
  have "\<forall>n<7. \<forall>m<7.
          io_answers ?d4 (io_peeks ?d4 + 1 + n) 0x244 AND 0x80 \<noteq> 0
            \<and> (\<forall>j<n. io_answers ?d4 (io_peeks ?d4 + 1 + j) 0x244 AND 0x80 = 0)
            \<and> io_answers ?d4 (io_peeks ?d4 + 2 + n + m) 0x284 AND 0x80 \<noteq> 0
            \<and> (\<forall>j<m. io_answers ?d4 (io_peeks ?d4 + 2 + n + j) 0x284 AND 0x80 = 0) \<longrightarrow>
          (\<exists>s'. calibrate_synth_charge_pumps ?d4 = Ok () s'
             \<and> io_peeks s' = io_peeks ?d4 + 3 + n + m
             \<and> drv s' = drv ?d4
             \<and> io_pokes s' = [(0x27d, 0), (0x27d, 4), (0x23d, 0), (0x23d, 4)] @ io_pokes ?d4)"
    by blast
  from this [rule_format, of 2 6, OF _ _ m4]
  have "\<exists>s'. calibrate_synth_charge_pumps ?d4 = Ok () s'
             \<and> io_peeks s' = io_peeks ?d4 + 3 + 2 + 6
             \<and> drv s' = drv ?d4
             \<and> io_pokes s' = [(0x27d, 0), (0x27d, 4), (0x23d, 0), (0x23d, 4)] @ io_pokes ?d4"
    by simp
  then obtain s4 where "calibrate_synth_charge_pumps ?d4 = Ok () s4"
    "io_peeks s4 = io_peeks ?d4 + 3 + 2 + 6"
    by blast
  with k4 have e: "thrown (calibrate_synth_charge_pumps ?d4) = None
          \<and> io_peeks (final (calibrate_synth_charge_pumps ?d4)) = 11"
    by simp
  from a b c d e show ?thesis by simp
qed

subsection \<open>The antenna chains\<close>

lemma chain_bits_low:
  fixes x :: u8
  shows "((x AND 0x3F) OR 0x40) AND 0x3F = x AND 0x3F"
    "((x AND 0x3F) OR 0x80) AND 0x3F = x AND 0x3F"
    "(((x AND 0x3F) OR 0x40) OR 0x80) AND 0x3F = x AND 0x3F"
    "(x AND 0x3F) AND 0x3F = x AND 0x3F"
  by (simp_all add: bit.conj_disj_distrib2 and.assoc)

text \<open>
  What a wait that ends has seen: the read that ended it is the first one, from the
  read after the entry on, that reports neither FDD (0xA) nor FDD-flush (0xB).
\<close>

lemma flush_wait_Some:
  assumes "flush_wait e s = Some s'"
  shows "drv s' = drv s \<and> io_pokes s' = io_pokes s
     \<and> (if e = 0xA \<or> e = 0xB
         then io_peeks s < io_peeks s'
           \<and> io_answers s (io_peeks s' - 1) 0x017 AND 0x0F \<noteq> 0xA
           \<and> io_answers s (io_peeks s' - 1) 0x017 AND 0x0F \<noteq> 0xB
           \<and> (\<forall>k. io_peeks s \<le> k \<and> k < io_peeks s' - 1 \<longrightarrow>
                  io_answers s k 0x017 AND 0x0F = 0xA \<or> io_answers s k 0x017 AND 0x0F = 0xB)
         else s' = s)"
  (is "?P e s s'")
proof (rule flush_wait.raw_induct [where P = ?P, OF _ assms])
  fix f :: "u8 \<Rightarrow> ad9361_device_t \<Rightarrow> ad9361_device_t option"
    and e :: u8 and s s' :: ad9361_device_t
  assume IH: "\<And>e s s'. f e s = Some s' \<Longrightarrow> ?P e s s'"
    and step: "(if e = 0xA \<or> e = 0xB
                then f (fst (peek8 0x017 s) AND 0x0F) (snd (peek8 0x017 s))
                else Some s) = Some s'"
  show "?P e s s'"
  proof (cases "e = 0xA \<or> e = 0xB")
    case False
    with step show ?thesis by simp
  next
    case True
    let ?e1 = "fst (peek8 0x017 s) AND 0x0F"
    let ?s1 = "snd (peek8 0x017 s)"
    from True step have r: "f ?e1 ?s1 = Some s'" by simp
    note ih = IH [OF r]
    show ?thesis
    proof (cases "?e1 = 0xA \<or> ?e1 = 0xB")
      case False
      with ih have "s' = ?s1" by simp
      with False True show ?thesis by auto
    next
      case e1: True
      with ih have d: "drv s' = drv s" "io_pokes s' = io_pokes s"
        and lt: "Suc (io_peeks s) < io_peeks s'"
        and last: "io_answers s (io_peeks s' - 1) 0x017 AND 0x0F \<noteq> 0xA"
          "io_answers s (io_peeks s' - 1) 0x017 AND 0x0F \<noteq> 0xB"
        and mid: "\<And>k. Suc (io_peeks s) \<le> k \<Longrightarrow> k < io_peeks s' - 1 \<Longrightarrow>
            io_answers s k 0x017 AND 0x0F = 0xA \<or> io_answers s k 0x017 AND 0x0F = 0xB"
        by simp_all
      have "io_answers s k 0x017 AND 0x0F = 0xA \<or> io_answers s k 0x017 AND 0x0F = 0xB"
        if "io_peeks s \<le> k" "k < io_peeks s' - 1" for k
      proof (cases "k = io_peeks s")
        case True
        with e1 show ?thesis by simp
      next
        case False
        with that have "Suc (io_peeks s) \<le> k" by simp
        with that mid show ?thesis by simp
      qed
      with True d lt last show ?thesis by simp
    qed
  qed
qed

lemma flush_wait_skip: "e \<noteq> 0xA \<Longrightarrow> e \<noteq> 0xB \<Longrightarrow> flush_wait e s = Some s"
  by (simp add: flush_wait.simps)

lemma flush_wait_ends:
  "e = 0xA \<or> e = 0xB \<Longrightarrow>
   io_answers s (io_peeks s + j) 0x017 AND 0x0F \<noteq> 0xA \<Longrightarrow>
   io_answers s (io_peeks s + j) 0x017 AND 0x0F \<noteq> 0xB \<Longrightarrow>
   (\<And>i. i < j \<Longrightarrow> io_answers s (io_peeks s + i) 0x017 AND 0x0F = 0xA
                 \<or> io_answers s (io_peeks s + i) 0x017 AND 0x0F = 0xB) \<Longrightarrow>
   flush_wait e s = Some (s\<lparr>io_peeks := io_peeks s + Suc j\<rparr>)"
proof (induction j arbitrary: e s)
  case 0
  then show ?case
    by (simp add: flush_wait.simps [of e s] flush_wait_skip peek8_def)
next
  case (Suc j)
  let ?e1 = "fst (peek8 0x017 s) AND 0x0F"
  let ?s1 = "snd (peek8 0x017 s)"
  from Suc.prems(4) [of 0] have e1: "?e1 = 0xA \<or> ?e1 = 0xB" by simp
  have "flush_wait ?e1 ?s1 = Some (?s1\<lparr>io_peeks := io_peeks ?s1 + Suc j\<rparr>)"
  proof (rule Suc.IH [OF e1])
    from Suc.prems(2,3)
    show "io_answers ?s1 (io_peeks ?s1 + j) 0x017 AND 0x0F \<noteq> 0xA"
      "io_answers ?s1 (io_peeks ?s1 + j) 0x017 AND 0x0F \<noteq> 0xB" by simp_all
    fix i assume "i < j"
    with Suc.prems(4) [of "Suc i"]
    show "io_answers ?s1 (io_peeks ?s1 + i) 0x017 AND 0x0F = 0xA
        \<or> io_answers ?s1 (io_peeks ?s1 + i) 0x017 AND 0x0F = 0xB" by simp
  qed
  with Suc.prems(1) show ?case
    by (simp add: flush_wait.simps [of e s] peek8_def)
qed

lemma flush_wait_forever:
  assumes "e = 0xA \<or> e = 0xB"
    and "\<And>k. io_peeks s \<le> k \<Longrightarrow>
           io_answers s k 0x017 AND 0x0F = 0xA \<or> io_answers s k 0x017 AND 0x0F = 0xB"
  shows "flush_wait e s = None"
proof (cases "flush_wait e s")
  case None
  then show ?thesis .
next
  case (Some s')
  from flush_wait_Some [OF Some] assms(1)
  have "io_peeks s < io_peeks s'"
    and "io_answers s (io_peeks s' - 1) 0x017 AND 0x0F \<noteq> 0xA"
    and "io_answers s (io_peeks s' - 1) 0x017 AND 0x0F \<noteq> 0xB"
    by simp_all
  moreover from this have "io_peeks s \<le> io_peeks s' - 1" by arith
  ultimately show ?thesis using assms(2) [of "io_peeks s' - 1"] by simp
qed


text \<open>The shadow registers as \<^verbatim>\<open>set_active_chains\<close> sets them, before it touches the chip.\<close>

lemma set_active_chains_regs_fields:
  "txfilt (regs (set_active_chains_regs tx1 tx2 rx1 rx2 s))
     = ((txfilt (regs s) AND 0x3F) OR (if tx1 then 0x40 else 0)) OR (if tx2 then 0x80 else 0)"
  "rxfilt (regs (set_active_chains_regs tx1 tx2 rx1 rx2 s))
     = ((rxfilt (regs s) AND 0x3F) OR (if rx1 then 0x40 else 0)) OR (if rx2 then 0x80 else 0)"
  "set_active_chains_regs tx1 tx2 rx1 rx2 s
     = s\<lparr>regs := (regs s)\<lparr>txfilt := txfilt (regs (set_active_chains_regs tx1 tx2 rx1 rx2 s)),
                             rxfilt := rxfilt (regs (set_active_chains_regs tx1 tx2 rx1 rx2 s))\<rparr>\<rparr>"
  "io_peeks (set_active_chains_regs tx1 tx2 rx1 rx2 s) = io_peeks s"
  "io_pokes (set_active_chains_regs tx1 tx2 rx1 rx2 s) = io_pokes s"
  "io_answers (set_active_chains_regs tx1 tx2 rx1 rx2 s) = io_answers s"
  by (cases tx1; cases tx2; cases rx1; cases rx2; simp add: set_active_chains_regs_def)+

lemma set_active_chains_eq:
  "set_active_chains tx1 tx2 rx1 rx2 s =
     (let s1 = set_active_chains_regs tx1 tx2 rx1 rx2 s;
          e = io_answers s (io_peeks s) 0x017 AND 0x0F;
          s3 = (if e = 0xA then poke8 0x014 0x01 (snd (peek8 0x017 s1)) else snd (peek8 0x017 s1))
      in case flush_wait e s3 of
           None \<Rightarrow> None
         | Some s4 \<Rightarrow>
             Some (if e = 0xA
                   then poke8 0x014 0x21 (pokes [(0x002, txfilt (regs s4)), (0x003, rxfilt (regs s4))] s4)
                   else pokes [(0x002, txfilt (regs s4)), (0x003, rxfilt (regs s4))] s4))"
  by (simp add: set_active_chains_def Let_def split_beta set_active_chains_regs_fields(4,6)
        cong: option.case_cong)


lemma set_active_chains_Some:
  assumes "set_active_chains tx1 tx2 rx1 rx2 s = Some s'"
  shows "txfilt (regs s') = ((txfilt (regs s) AND 0x3F) OR (if tx1 then 0x40 else 0))
                              OR (if tx2 then 0x80 else 0)"
    and "rxfilt (regs s') = ((rxfilt (regs s) AND 0x3F) OR (if rx1 then 0x40 else 0))
                              OR (if rx2 then 0x80 else 0)"
    and "drv s' = drv (s\<lparr>regs := (regs s)\<lparr>txfilt := txfilt (regs s'), rxfilt := rxfilt (regs s')\<rparr>\<rparr>)"
    and "io_pokes s' =
           (if io_answers s (io_peeks s) 0x017 AND 0x0F = 0xA
            then [(0x014, 0x21), (0x003, rxfilt (regs s')), (0x002, txfilt (regs s')), (0x014, 0x01)]
            else [(0x003, rxfilt (regs s')), (0x002, txfilt (regs s'))]) @ io_pokes s"
    and "io_peeks s < io_peeks s'"
    and "io_answers s (io_peeks s' - 1) 0x017 AND 0x0F \<noteq> 0xA"
    and "io_answers s (io_peeks s' - 1) 0x017 AND 0x0F \<noteq> 0xB"
    and "\<And>k. io_peeks s \<le> k \<Longrightarrow> k < io_peeks s' - 1 \<Longrightarrow>
            io_answers s k 0x017 AND 0x0F = 0xA \<or> io_answers s k 0x017 AND 0x0F = 0xB"
proof -
  let ?s1 = "set_active_chains_regs tx1 tx2 rx1 rx2 s"
  let ?e = "io_answers s (io_peeks s) 0x017 AND 0x0F"
  let ?s3 = "if ?e = 0xA then poke8 0x014 0x01 (snd (peek8 0x017 ?s1)) else snd (peek8 0x017 ?s1)"
  note c = set_active_chains_regs_fields [of tx1 tx2 rx1 rx2 s]
  from assms obtain s4 where w: "flush_wait ?e ?s3 = Some s4"
    and s': "s' = (if ?e = 0xA
                   then poke8 0x014 0x21 (pokes [(0x002, txfilt (regs s4)), (0x003, rxfilt (regs s4))] s4)
                   else pokes [(0x002, txfilt (regs s4)), (0x003, rxfilt (regs s4))] s4)"
    by (auto simp: set_active_chains_eq Let_def split: option.splits)
  note f = flush_wait_Some [OF w]
  have d3: "drv ?s3 = drv ?s1" and k3: "io_peeks ?s3 = Suc (io_peeks s)"
    and a3: "io_answers ?s3 = io_answers s"
    and p3: "io_pokes ?s3 = (if ?e = 0xA then [(0x014, 0x01)] else []) @ io_pokes s"
    by (simp_all add: c(4,5,6))
  from f d3 have d4: "drv s4 = drv ?s1" by simp
  from drv_fields(1) [OF d4] have r4: "regs s4 = regs ?s1" .
  from s' have d': "drv s' = drv s4" and r': "regs s' = regs s4" and k4: "io_peeks s' = io_peeks s4"
    by (simp_all split: if_splits)
  from r' r4 c(1,2)
  show "txfilt (regs s') = ((txfilt (regs s) AND 0x3F) OR (if tx1 then 0x40 else 0))
                              OR (if tx2 then 0x80 else 0)"
    and "rxfilt (regs s') = ((rxfilt (regs s) AND 0x3F) OR (if rx1 then 0x40 else 0))
                              OR (if rx2 then 0x80 else 0)"
    by simp_all
  have "drv s' = drv ?s1" using d' d4 by simp
  also have "?s1 = s\<lparr>regs := (regs s)\<lparr>txfilt := txfilt (regs s'), rxfilt := rxfilt (regs s')\<rparr>\<rparr>"
    using c(3) r' r4 by simp
  finally show "drv s' = drv (s\<lparr>regs := (regs s)\<lparr>txfilt := txfilt (regs s'), rxfilt := rxfilt (regs s')\<rparr>\<rparr>)" .
  from f have p4: "io_pokes s4 = io_pokes ?s3" by simp
  show "io_pokes s' =
           (if ?e = 0xA
            then [(0x014, 0x21), (0x003, rxfilt (regs s')), (0x002, txfilt (regs s')), (0x014, 0x01)]
            else [(0x003, rxfilt (regs s')), (0x002, txfilt (regs s'))]) @ io_pokes s"
    unfolding r' by (subst s') (simp add: p4 p3 c(5))
  show "io_peeks s < io_peeks s'"
    using f k4 k3 by (auto split: if_splits)
  show "io_answers s (io_peeks s' - 1) 0x017 AND 0x0F \<noteq> 0xA"
    and "io_answers s (io_peeks s' - 1) 0x017 AND 0x0F \<noteq> 0xB"
    using f k4 k3 a3 by (auto split: if_splits)
  fix k assume k: "io_peeks s \<le> k" "k < io_peeks s' - 1"
  show "io_answers s k 0x017 AND 0x0F = 0xA \<or> io_answers s k 0x017 AND 0x0F = 0xB"
  proof (cases "?e = 0xA \<or> ?e = 0xB")
    case False
    with f k4 k3 have "io_peeks s' = Suc (io_peeks s)" by (auto split: if_splits)
    with k show ?thesis by simp
  next
    case True
    show ?thesis
    proof (cases "k = io_peeks s")
      case True
      with \<open>?e = 0xA \<or> ?e = 0xB\<close> show ?thesis by simp
    next
      case False
      with k have "Suc (io_peeks s) \<le> k" by simp
      moreover from f True have "\<forall>k. io_peeks ?s3 \<le> k \<and> k < io_peeks s4 - 1 \<longrightarrow>
                  io_answers ?s3 k 0x017 AND 0x0F = 0xA \<or> io_answers ?s3 k 0x017 AND 0x0F = 0xB"
        by simp
      ultimately show ?thesis using k k4 unfolding k3 a3 by simp
    qed
  qed
qed

lemma set_active_chains_returns:
  assumes last: "io_answers s (io_peeks s + j) 0x017 AND 0x0F \<noteq> 0xA"
      "io_answers s (io_peeks s + j) 0x017 AND 0x0F \<noteq> 0xB"
    and before: "\<And>i. i < j \<Longrightarrow> io_answers s (io_peeks s + i) 0x017 AND 0x0F = 0xA
                   \<or> io_answers s (io_peeks s + i) 0x017 AND 0x0F = 0xB"
  shows "\<exists>s'. set_active_chains tx1 tx2 rx1 rx2 s = Some s' \<and> io_peeks s' = io_peeks s + Suc j"
proof (cases j)
  case 0
  with last show ?thesis
    by (simp add: set_active_chains_eq Let_def flush_wait_skip set_active_chains_regs_fields(4))
next
  case (Suc j')
  let ?s1 = "set_active_chains_regs tx1 tx2 rx1 rx2 s"
  let ?e = "io_answers s (io_peeks s) 0x017 AND 0x0F"
  let ?s3 = "if ?e = 0xA then poke8 0x014 0x01 (snd (peek8 0x017 ?s1)) else snd (peek8 0x017 ?s1)"
  from before [of 0] Suc have e: "?e = 0xA \<or> ?e = 0xB" by simp
  have k3: "io_peeks ?s3 = Suc (io_peeks s)" and a3: "io_answers ?s3 = io_answers s"
    by (simp_all add: set_active_chains_regs_fields(4,6))
  have "flush_wait ?e ?s3 = Some (?s3\<lparr>io_peeks := io_peeks ?s3 + Suc j'\<rparr>)"
  proof (rule flush_wait_ends [OF e])
    from last Suc show "io_answers ?s3 (io_peeks ?s3 + j') 0x017 AND 0x0F \<noteq> 0xA"
      "io_answers ?s3 (io_peeks ?s3 + j') 0x017 AND 0x0F \<noteq> 0xB"
      unfolding k3 a3 by simp_all
    fix i assume "i < j'"
    with before [of "Suc i"] Suc
    show "io_answers ?s3 (io_peeks ?s3 + i) 0x017 AND 0x0F = 0xA
        \<or> io_answers ?s3 (io_peeks ?s3 + i) 0x017 AND 0x0F = 0xB"
      unfolding k3 a3 by simp
  qed
  then have "flush_wait ?e ?s3 = Some (?s3\<lparr>io_peeks := io_peeks s + Suc j\<rparr>)"
    unfolding k3 Suc by simp
  then show ?thesis
    unfolding set_active_chains_eq Let_def by (simp del: peek8_fields)
qed

lemma set_active_chains_hangs:
  assumes "\<And>k. io_peeks s \<le> k \<Longrightarrow>
           io_answers s k 0x017 AND 0x0F = 0xA \<or> io_answers s k 0x017 AND 0x0F = 0xB"
  shows "set_active_chains tx1 tx2 rx1 rx2 s = None"
proof (cases "set_active_chains tx1 tx2 rx1 rx2 s")
  case None
  then show ?thesis .
next
  case (Some s')
  note f = set_active_chains_Some(5,6,7) [OF Some]
  from f(1) have "io_peeks s \<le> io_peeks s' - 1" by arith
  from assms [OF this] f(2,3) show ?thesis by simp
qed

text \<open>
  Claim C8. The wait of \<^verbatim>\<open>set_active_chains\<close> has no attempt bound. The call never
  returns exactly when every read of the ENSM state register (0x017), from the first
  read of the call on, reports FDD (0xA) or FDD-flush (0xB); when it returns, the last
  read it made is the first that reported another state; and for every number \<open>n\<close> there
  is a chip (FDD for its next \<open>n\<close> answers, ALERT afterwards) on which the call makes
  \<open>n + 1\<close> reads before it returns.
\<close>

theorem set_active_chains_wait_unbounded:
  "(set_active_chains tx1 tx2 rx1 rx2 s = None \<longleftrightarrow>
      (\<forall>k. io_peeks s \<le> k \<longrightarrow>
          io_answers s k 0x017 AND 0x0F = 0xA \<or> io_answers s k 0x017 AND 0x0F = 0xB))
   \<and> (\<forall>s'. set_active_chains tx1 tx2 rx1 rx2 s = Some s' \<longrightarrow>
          io_peeks s < io_peeks s'
          \<and> io_answers s (io_peeks s' - 1) 0x017 AND 0x0F \<noteq> 0xA
          \<and> io_answers s (io_peeks s' - 1) 0x017 AND 0x0F \<noteq> 0xB
          \<and> (\<forall>k. io_peeks s \<le> k \<and> k < io_peeks s' - 1 \<longrightarrow>
                io_answers s k 0x017 AND 0x0F = 0xA \<or> io_answers s k 0x017 AND 0x0F = 0xB))
   \<and> (\<forall>n. \<exists>s'. set_active_chains tx1 tx2 rx1 rx2
                    (s\<lparr>io_answers := \<lambda>k a. if k < io_peeks s + n then 0xA else 0x5\<rparr>) = Some s'
              \<and> io_peeks s' = io_peeks s + n + 1)"
proof (intro conjI allI impI)
  show "set_active_chains tx1 tx2 rx1 rx2 s = None \<longleftrightarrow>
      (\<forall>k. io_peeks s \<le> k \<longrightarrow>
          io_answers s k 0x017 AND 0x0F = 0xA \<or> io_answers s k 0x017 AND 0x0F = 0xB)"
  proof
    assume none: "set_active_chains tx1 tx2 rx1 rx2 s = None"
    show "\<forall>k. io_peeks s \<le> k \<longrightarrow>
          io_answers s k 0x017 AND 0x0F = 0xA \<or> io_answers s k 0x017 AND 0x0F = 0xB"
    proof (rule ccontr)
      assume "\<not> (\<forall>k. io_peeks s \<le> k \<longrightarrow>
          io_answers s k 0x017 AND 0x0F = 0xA \<or> io_answers s k 0x017 AND 0x0F = 0xB)"
      then have "\<exists>j. \<not> (io_answers s (io_peeks s + j) 0x017 AND 0x0F = 0xA
                  \<or> io_answers s (io_peeks s + j) 0x017 AND 0x0F = 0xB)"
        by (metis le_add_diff_inverse)
      then obtain j where "\<not> (io_answers s (io_peeks s + j) 0x017 AND 0x0F = 0xA
                  \<or> io_answers s (io_peeks s + j) 0x017 AND 0x0F = 0xB)"
        and "\<forall>i<j. \<not> \<not> (io_answers s (io_peeks s + i) 0x017 AND 0x0F = 0xA
                  \<or> io_answers s (io_peeks s + i) 0x017 AND 0x0F = 0xB)"
        unfolding exists_least_iff [of "\<lambda>j. \<not> (io_answers s (io_peeks s + j) 0x017 AND 0x0F = 0xA
                  \<or> io_answers s (io_peeks s + j) 0x017 AND 0x0F = 0xB)"]
        by blast
      then have "\<exists>s'. set_active_chains tx1 tx2 rx1 rx2 s = Some s' \<and> io_peeks s' = io_peeks s + Suc j"
        by (intro set_active_chains_returns) auto
      with none show False by simp
    qed
  next
    assume "\<forall>k. io_peeks s \<le> k \<longrightarrow>
          io_answers s k 0x017 AND 0x0F = 0xA \<or> io_answers s k 0x017 AND 0x0F = 0xB"
    then show "set_active_chains tx1 tx2 rx1 rx2 s = None"
      by (intro set_active_chains_hangs) simp
  qed
next
  fix s' assume r: "set_active_chains tx1 tx2 rx1 rx2 s = Some s'"
  from set_active_chains_Some(5,6,7) [OF r]
  show "io_peeks s < io_peeks s'"
    "io_answers s (io_peeks s' - 1) 0x017 AND 0x0F \<noteq> 0xA"
    "io_answers s (io_peeks s' - 1) 0x017 AND 0x0F \<noteq> 0xB" .
  fix k assume "io_peeks s \<le> k \<and> k < io_peeks s' - 1"
  with set_active_chains_Some(8) [OF r, of k]
  show "io_answers s k 0x017 AND 0x0F = 0xA \<or> io_answers s k 0x017 AND 0x0F = 0xB" by simp
next
  fix n
  let ?s = "s\<lparr>io_answers := \<lambda>k a. if k < io_peeks s + n then 0xA else 0x5\<rparr>"
  have "\<exists>s'. set_active_chains tx1 tx2 rx1 rx2 ?s = Some s' \<and> io_peeks s' = io_peeks ?s + Suc n"
    by (intro set_active_chains_returns) simp_all
  then show "\<exists>s'. set_active_chains tx1 tx2 rx1 rx2 ?s = Some s' \<and> io_peeks s' = io_peeks s + n + 1"
    by simp
qed

theorem set_active_chains_wait_unbounded_witness:
  "set_active_chains True False False False (bench_device\<lparr>io_answers := \<lambda>k a. 0xA\<rparr>) = None
   \<and> (\<exists>s'. set_active_chains True False False False
               (bench_device\<lparr>io_answers := \<lambda>k a. if k < io_peeks bench_device + 1000 then 0xA else 0x5\<rparr>)
             = Some s'
          \<and> io_peeks s' = 1001)"
proof -
  let ?d = "bench_device\<lparr>io_answers := \<lambda>k a. 0xA\<rparr>"
  have "\<forall>k. io_peeks ?d \<le> k \<longrightarrow>
          io_answers ?d k 0x017 AND 0x0F = 0xA \<or> io_answers ?d k 0x017 AND 0x0F = 0xB"
    by simp
  with set_active_chains_wait_unbounded [of True False False False ?d]
  have a: "set_active_chains True False False False ?d = None" by blast
  from set_active_chains_wait_unbounded [of True False False False bench_device]
  have "\<exists>s'. set_active_chains True False False False
               (bench_device\<lparr>io_answers := \<lambda>k a. if k < io_peeks bench_device + 1000 then 0xA else 0x5\<rparr>)
             = Some s'
          \<and> io_peeks s' = io_peeks bench_device + 1000 + 1"
    by blast
  moreover have "io_peeks bench_device = 0" by (simp add: bench_device_def)
  ultimately show ?thesis using a by simp
qed

text \<open>
  Claim C9. A call of \<^verbatim>\<open>set_active_chains\<close> that returns has changed nothing of the
  driver's state but bits 6 and 7 of the \<open>txfilt\<close> and \<open>rxfilt\<close> shadows: these are the
  four arguments, and bits [5:0] of both shadows are as before the call.
\<close>

theorem set_active_chains_keeps_filter_bits:
  assumes "set_active_chains tx1 tx2 rx1 rx2 s = Some s'"
  shows "txfilt (regs s') AND 0x3F = txfilt (regs s) AND 0x3F
     \<and> rxfilt (regs s') AND 0x3F = rxfilt (regs s) AND 0x3F
     \<and> txfilt (regs s') AND 0xC0 = (if tx1 then 0x40 else 0) OR (if tx2 then 0x80 else 0)
     \<and> rxfilt (regs s') AND 0xC0 = (if rx1 then 0x40 else 0) OR (if rx2 then 0x80 else 0)
     \<and> drv s' = drv (s\<lparr>regs := (regs s)\<lparr>txfilt := txfilt (regs s'), rxfilt := rxfilt (regs s')\<rparr>\<rparr>)"
proof -
  note r = set_active_chains_Some(1,2,3) [OF assms]
  have hi: "(x AND 0x3F) AND 0xC0 = 0" for x :: u8
    by (simp add: and.assoc)
  from r(1) have "txfilt (regs s') AND 0x3F = txfilt (regs s) AND 0x3F"
    by (simp add: chain_bits_low)
  moreover from r(2) have "rxfilt (regs s') AND 0x3F = rxfilt (regs s) AND 0x3F"
    by (simp add: chain_bits_low)
  moreover from r(1) have "txfilt (regs s') AND 0xC0 = (if tx1 then 0x40 else 0) OR (if tx2 then 0x80 else 0)"
    by (simp add: bit.conj_disj_distrib2 hi)
  moreover from r(2) have "rxfilt (regs s') AND 0xC0 = (if rx1 then 0x40 else 0) OR (if rx2 then 0x80 else 0)"
    by (simp add: bit.conj_disj_distrib2 hi)
  ultimately show ?thesis using r(3) by simp
qed

theorem set_active_chains_keeps_filter_bits_witness:
  "\<exists>s'. set_active_chains True False False False
          (bench_device\<lparr>regs := (regs bench_device)\<lparr>txfilt := 0xE2, rxfilt := 0xE6\<rparr>\<rparr>) = Some s'
     \<and> txfilt (regs s') AND 0x3F = 0x22 \<and> rxfilt (regs s') AND 0x3F = 0x26
     \<and> txfilt (regs s') AND 0xC0 = 0x40 \<and> rxfilt (regs s') AND 0xC0 = 0"
proof -
  let ?d = "bench_device\<lparr>regs := (regs bench_device)\<lparr>txfilt := 0xE2, rxfilt := 0xE6\<rparr>\<rparr>"
  have "\<exists>s'. set_active_chains True False False False ?d = Some s'"
    by (simp add: set_active_chains_eq Let_def flush_wait_skip bench_device_def bench_chip_def)
  then obtain s' where r: "set_active_chains True False False False ?d = Some s'" by blast
  from set_active_chains_keeps_filter_bits [OF r] r show ?thesis by simp
qed

subsection \<open>What a call leaves unchanged\<close>

lemma io_blind_basic [simp]:
  "io_blind drv" "io_blind rate_cfg" "io_blind lo_cfg" "io_blind env" "io_blind regs"
  "io_blind io_answers" "io_blind client_params"
  unfolding io_blind_def
  using drv_cfgs drv_fields(1,18,19) by blast+

lemma io_blindD: "io_blind p \<Longrightarrow> drv a = drv b \<Longrightarrow> p a = p b"
  unfolding io_blind_def by blast

lemmas pokes_fields [simp] = drv_fields [OF drv_pokes]

lemmas fold_pokes_fields [simp] = drv_fields [OF drv_fold_pokes]

lemma keeps_Ok [simp]: "keeps p s (Ok x s') \<longleftrightarrow> p s' = p s"
  by (simp add: keeps_def)

lemma keeps_Err [simp]: "keeps p s (Err e s')"
  by (simp add: keeps_def)

lemma keepsD: "keeps p s r \<Longrightarrow> r = Ok x s' \<Longrightarrow> p s' = p s"
  by (simp add: keeps_def)

lemma keeps_OkI: "p s' = p s \<Longrightarrow> keeps p s (Ok x s')"
  by simp

lemma keeps_and_then:
  "keeps p s r \<Longrightarrow> (\<And>x s1. p s1 = p s \<Longrightarrow> keeps p s (f x s1)) \<Longrightarrow> keeps p s (and_then r f)"
  by (cases r) (auto simp: keeps_def split: result.splits)

lemma keeps_if:
  "(c \<Longrightarrow> keeps p s a) \<Longrightarrow> (\<not> c \<Longrightarrow> keeps p s b) \<Longrightarrow> keeps p s (if c then a else b)"
  by simp

lemma keeps_Let_st:
  fixes a :: ad9361_device_t
  shows "(\<And>x. p x = p s \<Longrightarrow> keeps p s (f x)) \<Longrightarrow> p a = p s \<Longrightarrow> keeps p s (Let a f)"
  by simp

lemma keeps_Let_peek:
  fixes a :: "'v \<times> ad9361_device_t"
  shows "(\<And>v x. p x = p s \<Longrightarrow> keeps p s (f v x)) \<Longrightarrow> p (snd a) = p s
     \<Longrightarrow> keeps p s (Let a (case_prod f))"
  by (cases a) simp

lemma keeps_Let_pair: "(\<And>x y. keeps p s (f x y)) \<Longrightarrow> keeps p s (Let a (case_prod f))"
  by (cases a) simp

lemma keeps_Let_val: "(\<And>x. keeps p s (f x)) \<Longrightarrow> keeps p s (Let a f)"
  by simp

lemmas keeps_struct =
  keeps_and_then keeps_if keeps_Let_peek keeps_Let_st keeps_Let_pair keeps_Let_val keeps_OkI keeps_Err

lemma keeps_blind:
  "io_blind p \<Longrightarrow> keeps drv s0 r \<Longrightarrow> p s0 = p s \<Longrightarrow> keeps p s r"
  by (cases r) (auto dest: io_blindD)

text \<open>The parts that only talk to the chip.\<close>

lemma drv_program_fir_filter [simp]: "drv (program_fir_filter d n c s) = drv s"
  by (simp add: program_fir_filter_def Let_def)

lemma drv_setup_adc [simp]: "drv (setup_adc s) = drv s"
  by (simp add: setup_adc_def split_beta Let_def)

lemma drv_calibrate_rx_quadrature [simp]: "drv (calibrate_rx_quadrature s) = drv s"
  by (simp add: calibrate_rx_quadrature_def)

lemma drv_program_mixer_gm_subtable [simp]: "drv (program_mixer_gm_subtable s) = drv s"
  by (simp add: program_mixer_gm_subtable_def Let_def)

lemma drv_setup_gain_control [simp]: "drv (setup_gain_control s) = drv s"
  by (simp add: setup_gain_control_def)

lemmas program_fir_filter_fields [simp] = drv_fields [OF drv_program_fir_filter]
lemmas setup_adc_fields [simp] = drv_fields [OF drv_setup_adc]
lemmas calibrate_rx_quadrature_fields [simp] = drv_fields [OF drv_calibrate_rx_quadrature]
lemmas program_mixer_gm_subtable_fields [simp] = drv_fields [OF drv_program_mixer_gm_subtable]
lemmas setup_gain_control_fields [simp] = drv_fields [OF drv_setup_gain_control]

lemma keeps_drv_poll_wait: "keeps drv s (poll_wait a m u lm e c s)"
  by (cases "poll_wait a m u lm e c s") (auto dest: poll_wait_Ok)

lemmas keeps_poll_wait = keeps_blind [OF _ keeps_drv_poll_wait]

lemma keeps_drv_setup_rx_fir: "keeps drv s (setup_rx_fir tb n s)"
  by (simp add: setup_rx_fir_def)

lemmas keeps_setup_rx_fir = keeps_blind [OF _ keeps_drv_setup_rx_fir]

lemma keeps_drv_setup_tx_fir: "keeps drv s (setup_tx_fir tb n s)"
  by (simp add: setup_tx_fir_def)

lemmas keeps_setup_tx_fir = keeps_blind [OF _ keeps_drv_setup_tx_fir]

lemma keeps_drv_calibrate_lock_bbpll: "keeps drv s (calibrate_lock_bbpll s)"
  unfolding calibrate_lock_bbpll_def by (rule keeps_poll_wait) simp_all

lemmas keeps_calibrate_lock_bbpll = keeps_blind [OF _ keeps_drv_calibrate_lock_bbpll]

lemma keeps_drv_calibrate_synth_charge_pumps: "keeps drv s (calibrate_synth_charge_pumps s)"
  by (cases "calibrate_synth_charge_pumps s") (auto dest: charge_pumps_Ok)

lemmas keeps_calibrate_synth_charge_pumps =
  keeps_blind [OF _ keeps_drv_calibrate_synth_charge_pumps]

lemma keeps_drv_calibrate_secondary_tx_filter: "keeps drv s (calibrate_secondary_tx_filter s)"
  unfolding calibrate_secondary_tx_filter_def
  by (intro keeps_struct) simp_all

lemmas keeps_calibrate_secondary_tx_filter =
  keeps_blind [OF _ keeps_drv_calibrate_secondary_tx_filter]

lemma keeps_drv_calibrate_rx_TIAs: "keeps drv s (calibrate_rx_TIAs s)"
  unfolding calibrate_rx_TIAs_def
  by (intro keeps_struct) simp_all

lemmas keeps_calibrate_rx_TIAs = keeps_blind [OF _ keeps_drv_calibrate_rx_TIAs]

lemma keeps_drv_calibrate_baseband_dc_offset: "keeps drv s (calibrate_baseband_dc_offset s)"
  unfolding calibrate_baseband_dc_offset_def by (rule keeps_poll_wait) simp_all

lemmas keeps_calibrate_baseband_dc_offset =
  keeps_blind [OF _ keeps_drv_calibrate_baseband_dc_offset]

lemma keeps_drv_calibrate_rf_dc_offset: "keeps drv s (calibrate_rf_dc_offset s)"
  unfolding calibrate_rf_dc_offset_def
  by (intro keeps_struct keeps_poll_wait) simp_all

lemmas keeps_calibrate_rf_dc_offset = keeps_blind [OF _ keeps_drv_calibrate_rf_dc_offset]

lemma keeps_drv_setup_synth: "keeps drv s (setup_synth tb d v s)"
  unfolding setup_synth_def
  by (intro keeps_struct) simp_all

lemmas keeps_setup_synth = keeps_blind [OF _ keeps_drv_setup_synth]

lemma keeps_drv_tx_quadrature_cal_routine: "keeps drv s (tx_quadrature_cal_routine s)"
  unfolding tx_quadrature_cal_routine_def
  by (intro keeps_struct keeps_calibrate_baseband_dc_offset keeps_calibrate_rf_dc_offset
        keeps_poll_wait) simp_all

lemmas keeps_tx_quadrature_cal_routine = keeps_blind [OF _ keeps_drv_tx_quadrature_cal_routine]

end
